theory Spec2Isabelle
  imports Main "HOL-Library.AList" "HOL-Library.Char_ord" "HOL-Library.List_Lexorder"
begin

section \<open>Python strings and lists\<close>

text \<open>
  The analyzer (\<^verbatim>\<open>src/repo_analyzer.py\<close>) works on Python \<^verbatim>\<open>str\<close> values. The
  texts it reads (paths, responses, error messages, headers) are modelled as
  \<^typ>\<open>string\<close>, one \<^typ>\<open>char\<close> per code point, so the model covers texts in the
  Latin-1 range; \<^const>\<open>length\<close> is Python's \<^verbatim>\<open>len\<close> there. A string inside a JSON
  value can hold any code point, written as an escape, and is a list of code points.
  Python integers are \<^typ>\<open>int\<close>: configuration values may be negative, and
  \<^verbatim>\<open>str.find\<close> returns \<^verbatim>\<open>-1\<close>.
\<close>

type_synonym ustring = "nat list"

definition ustr :: "string \<Rightarrow> ustring" where
  \<comment> \<open>a text of the model as code points\<close>
  "ustr s = map of_char s"

definition latin1 :: "ustring \<Rightarrow> string option" where
  \<comment> \<open>the text of the model with these code points, when all are below 256\<close>
  "latin1 u = (if list_all (\<lambda>n. n < 256) u then Some (map char_of u) else None)"

definition join :: "'a list \<Rightarrow> 'a list list \<Rightarrow> 'a list" where
  \<comment> \<open>\<^verbatim>\<open>sep.join(parts)\<close>\<close>
  "join sep parts =
     (case parts of [] \<Rightarrow> [] | p # ps \<Rightarrow> foldl (\<lambda>acc q. acc @ sep @ q) p ps)"

definition lower_char :: "char \<Rightarrow> char" where
  \<comment> \<open>\<^verbatim>\<open>str.lower\<close> on one code point below 256: A-Z and the Latin-1 capitals\<close>
  "lower_char c =
     (let n = (of_char c :: nat)
      in if (65 \<le> n \<and> n \<le> 90) \<or> (192 \<le> n \<and> n \<le> 222 \<and> n \<noteq> 215)
         then char_of (n + 32) else c)"

definition lower :: "string \<Rightarrow> string" where
  "lower s = map lower_char s"

primrec startswith :: "string \<Rightarrow> string \<Rightarrow> bool" where
  "startswith [] sub = (sub = [])"
| "startswith (c # cs) sub =
     (case sub of [] \<Rightarrow> True | d # ds \<Rightarrow> c = d \<and> startswith cs ds)"

definition endswith :: "string \<Rightarrow> string \<Rightarrow> bool" where
  "endswith s suf = startswith (rev s) (rev suf)"

primrec contains :: "string \<Rightarrow> string \<Rightarrow> bool" where
  \<comment> \<open>\<^verbatim>\<open>sub in s\<close>\<close>
  "contains [] sub = (sub = [])"
| "contains (c # cs) sub = (startswith (c # cs) sub \<or> contains cs sub)"

primrec str_find :: "string \<Rightarrow> char \<Rightarrow> int" where
  \<comment> \<open>\<^verbatim>\<open>s.find(ch)\<close>: the lowest index of \<open>ch\<close>, or \<open>-1\<close>\<close>
  "str_find [] ch = - 1"
| "str_find (c # cs) ch =
     (if c = ch then 0 else (let i = str_find cs ch in if i = - 1 then - 1 else i + 1))"

definition str_rfind :: "string \<Rightarrow> char \<Rightarrow> int" where
  \<comment> \<open>\<^verbatim>\<open>s.rfind(ch)\<close>: the highest index of \<open>ch\<close>, or \<open>-1\<close>\<close>
  "str_rfind s ch =
     (let i = str_find (rev s) ch in if i = - 1 then - 1 else int (length s) - 1 - i)"

definition slice_index :: "nat \<Rightarrow> int \<Rightarrow> nat" where
  \<comment> \<open>a slice bound, clamped to \<open>0..n\<close>; a negative bound counts from the end\<close>
  "slice_index n i = (if i < 0 then nat (int n + i) else min (nat i) n)"

definition slice :: "'a list \<Rightarrow> int \<Rightarrow> int \<Rightarrow> 'a list" where
  \<comment> \<open>\<^verbatim>\<open>xs[a:b]\<close>\<close>
  "slice xs a b =
     drop (slice_index (length xs) a) (take (slice_index (length xs) b) xs)"

definition slice_to :: "'a list \<Rightarrow> int \<Rightarrow> 'a list" where
  \<comment> \<open>\<^verbatim>\<open>xs[:b]\<close>\<close>
  "slice_to xs b = take (slice_index (length xs) b) xs"

definition slice_from :: "'a list \<Rightarrow> int \<Rightarrow> 'a list" where
  \<comment> \<open>\<^verbatim>\<open>xs[a:]\<close>\<close>
  "slice_from xs a = drop (slice_index (length xs) a) xs"

fun split_on :: "char \<Rightarrow> string \<Rightarrow> string list" where
  \<comment> \<open>\<^verbatim>\<open>s.split(sep)\<close> for a one-character separator\<close>
  "split_on sep [] = [[]]"
| "split_on sep (c # cs) =
     (if c = sep then [] # split_on sep cs
      else (case split_on sep cs of [] \<Rightarrow> [[c]] | w # ws \<Rightarrow> (c # w) # ws))"

definition basename :: "string \<Rightarrow> string" where
  \<comment> \<open>\<^verbatim>\<open>os.path.basename\<close> (POSIX): the text after the last slash\<close>
  "basename p = slice_from p (str_rfind p CHR ''/'' + 1)"

definition path_name :: "string \<Rightarrow> string" where
  \<comment> \<open>\<^verbatim>\<open>Path(p).name\<close> (POSIX): the last component, empty and \<^verbatim>\<open>.\<close> components dropped\<close>
  "path_name p =
     (case filter (\<lambda>c. c \<noteq> [] \<and> c \<noteq> ''.'') (split_on CHR ''/'' p) of
        [] \<Rightarrow> []
      | q # qs \<Rightarrow> last (q # qs))"

definition path_suffix :: "string \<Rightarrow> string" where
  \<comment> \<open>\<^verbatim>\<open>Path(p).suffix\<close>\<close>
  "path_suffix p =
     (let name = path_name p; i = str_rfind name CHR ''.''
      in if 0 < i \<and> i < int (length name) - 1 then slice_from name i else [])"

section \<open>Constants and configuration\<close>

definition SUPPORTED_EXTENSIONS :: "string list" where
  "SUPPORTED_EXTENSIONS =
     [''.js'', ''.ts'', ''.jsx'', ''.tsx'', ''.py'', ''.java'', ''.go'', ''.rs'', ''.rb'',
      ''.php'', ''.cpp'', ''.c'', ''.cs'', ''.swift'', ''.kt'', ''.scala'', ''.clj'',
      ''.json'', ''.yaml'', ''.yml'', ''.toml'', ''.xml'', ''.md'', ''.txt'', ''.sh'',
      ''.dockerfile'', ''.makefile'']"

definition MAX_TOTAL_CONTENT_SIZE :: int where
  "MAX_TOTAL_CONTENT_SIZE = 100000"

definition AI_MAX_RETRIES :: nat where
  "AI_MAX_RETRIES = 3"

definition AI_RETRY_DELAY :: nat where
  "AI_RETRY_DELAY = 2"

text \<open>
  \<^verbatim>\<open>self.config\<close>: the entries the modelled operations read. The loader caps
  \<^verbatim>\<open>max_files_to_analyze\<close> at 200 and \<^verbatim>\<open>max_file_size\<close> at 50000 and sets no lower
  bound on either.
\<close>

record config =
  max_files_to_analyze :: int
  max_file_size :: int
  excluded_directories :: "string list"
  excluded_file_extensions :: "string list"

definition DEFAULT_CONFIG :: config where
  "DEFAULT_CONFIG =
     \<lparr> max_files_to_analyze = 50,
       max_file_size = 10000,
       excluded_directories =
         [''node_modules'', ''.git'', ''__pycache__'', ''dist'', ''build'',
          ''target'', ''.idea'', ''.vscode'', ''coverage'', ''.nyc_output''],
       excluded_file_extensions =
         [''.log'', ''.tmp'', ''.cache'', ''.lock'', ''.map'', ''.min.js'', ''.min.css''] \<rparr>"

section \<open>File filter\<close>

text \<open>
  \<^verbatim>\<open>_filter_files\<close>: one pass over the paths, with three \<^verbatim>\<open>continue\<close> guards before
  the \<^verbatim>\<open>append\<close>. The supported extensions are the constant
  \<^const>\<open>SUPPORTED_EXTENSIONS\<close> in the source; the loop takes them as an argument so that
  a property can be stated for every such table.
\<close>

primrec filter_loop :: "string list \<Rightarrow> config \<Rightarrow> string list \<Rightarrow> string list" where
  "filter_loop supported cfg [] = []"
| "filter_loop supported cfg (file_path # rest) =
     (if list_ex (\<lambda>excluded_dir. excluded_dir \<in> set (split_on CHR ''/'' file_path))
           (excluded_directories cfg)
      then filter_loop supported cfg rest
      else if list_ex (\<lambda>ext. endswith file_path ext) (excluded_file_extensions cfg)
      then filter_loop supported cfg rest
      else (let file_ext = lower (path_suffix file_path)
            in if file_ext \<noteq> [] \<and> file_ext \<notin> set supported
               then filter_loop supported cfg rest
               else file_path # filter_loop supported cfg rest))"

definition filter_files :: "config \<Rightarrow> string list \<Rightarrow> string list" where
  "filter_files cfg all_files = filter_loop SUPPORTED_EXTENSIONS cfg all_files"

section \<open>Exceptions\<close>

text \<open>
  The exception classes the modelled operations raise, with the message where the source
  builds one. A raising operation returns \<open>Inl\<close> of the exception.
\<close>

datatype exn =
    GitHubAPIError string
  | AIModelError string
  | ValueError
  | KeyError string
  | TypeError
  | AttributeError
  | OtherError string

section \<open>JSON values and \<^verbatim>\<open>json.loads\<close>\<close>

text \<open>
  The decoder of the standard library, as a recursive-descent scanner over the text: the
  whitespace, string, number, array and object rules of \<^verbatim>\<open>json.decoder\<close> and
  \<^verbatim>\<open>json.scanner\<close>, duplicate keys resolved as \<^verbatim>\<open>dict(pairs)\<close> does, and text after
  the value rejected (``Extra data''). \<open>None\<close> is \<^verbatim>\<open>JSONDecodeError\<close>. A number with a
  fraction or an exponent is kept as its lexeme. A string value is a list of code
  points: an escape \<^verbatim>\<open>\uXXXX\<close> gives its code point, and a high surrogate followed by
  an escaped low surrogate gives the code point of the pair, as the C scanner does.
  The scanner functions carry a fuel argument that decreases at each nested call;
  \<open>json_loads\<close> supplies twice the length of the text, which the nesting cannot exceed.
  The recursion limit of the interpreter (a \<^verbatim>\<open>RecursionError\<close> on a text nested a
  thousand levels deep) is not modelled.
\<close>

datatype json =
    JNull
  | JBool bool
  | JInt int
  | JFloat string
  | JString ustring
  | JArray "json list"
  | JObject "(ustring \<times> json) list"

definition is_ws :: "char \<Rightarrow> bool" where
  "is_ws c = (c = CHR '' '' \<or> c = CHR 0x09 \<or> c = CHR 0x0A \<or> c = CHR 0x0D)"

definition skip_ws :: "string \<Rightarrow> string" where
  "skip_ws s = dropWhile is_ws s"

definition is_digit :: "char \<Rightarrow> bool" where
  "is_digit c = (let n = (of_char c :: nat) in 48 \<le> n \<and> n \<le> 57)"

definition digit_val :: "char \<Rightarrow> int" where
  "digit_val c = int (of_char c) - 48"

definition decimal :: "string \<Rightarrow> int" where
  "decimal ds = foldl (\<lambda>acc d. 10 * acc + digit_val d) 0 ds"

definition hex_val :: "char \<Rightarrow> nat option" where
  "hex_val c =
     (let n = (of_char c :: nat)
      in if 48 \<le> n \<and> n \<le> 57 then Some (n - 48)
         else if 65 \<le> n \<and> n \<le> 70 then Some (n - 55)
         else if 97 \<le> n \<and> n \<le> 102 then Some (n - 87)
         else None)"

definition unescape :: "char \<Rightarrow> nat option" where
  "unescape e =
     (if e = CHR 0x22 then Some 0x22
      else if e = CHR 0x5C then Some 0x5C
      else if e = CHR ''/'' then Some 0x2F
      else if e = CHR ''b'' then Some 0x08
      else if e = CHR ''f'' then Some 0x0C
      else if e = CHR ''n'' then Some 0x0A
      else if e = CHR ''r'' then Some 0x0D
      else if e = CHR ''t'' then Some 0x09
      else None)"

definition hex4 :: "string \<Rightarrow> nat option" where
  \<comment> \<open>the value of exactly four hexadecimal digits\<close>
  "hex4 hs =
     (case map hex_val hs of
        [Some x, Some y, Some z, Some w] \<Rightarrow> Some (((x * 16 + y) * 16 + z) * 16 + w)
      | _ \<Rightarrow> None)"

definition is_high_surrogate :: "nat \<Rightarrow> bool" where
  "is_high_surrogate c = (0xD800 \<le> c \<and> c \<le> 0xDBFF)"

definition is_low_surrogate :: "nat \<Rightarrow> bool" where
  "is_low_surrogate c = (0xDC00 \<le> c \<and> c \<le> 0xDFFF)"

definition join_surrogates :: "nat \<Rightarrow> nat \<Rightarrow> nat" where
  "join_surrogates c c2 = 0x10000 + (c - 0xD800) * 0x400 + (c2 - 0xDC00)"

text \<open>
  \<open>scanstring\<close> reads a string after its opening quote and returns it with the text
  after the closing quote. After \<^verbatim>\<open>\uXXXX\<close> at least one character must follow; a high
  surrogate is joined with a following escaped low surrogate when more than six
  characters follow it, and then a malformed second escape is an error.
\<close>

fun scanstring :: "string \<Rightarrow> (ustring \<times> string) option" where
  "scanstring [] = None"
| "scanstring [c] = (if c = CHR 0x22 then Some ([], []) else None)"
| "scanstring (c # e # cs) =
     (if c = CHR 0x22 then Some ([], e # cs)
      else if c = CHR 0x5C then
        (if e = CHR ''u'' then
           (case hex4 (take 4 cs) of
              None \<Rightarrow> None
            | Some u \<Rightarrow>
                (let rest = drop 4 cs
                 in if rest = [] then None
                    else if is_high_surrogate u \<and> length rest > 6
                            \<and> take 2 rest = [CHR 0x5C, CHR ''u'']
                    then (case hex4 (take 4 (drop 2 rest)) of
                            None \<Rightarrow> None
                          | Some u2 \<Rightarrow>
                              if is_low_surrogate u2
                              then map_option (\<lambda>(s, r). (join_surrogates u u2 # s, r))
                                     (scanstring (drop 6 rest))
                              else map_option (\<lambda>(s, r). (u # s, r)) (scanstring rest))
                    else map_option (\<lambda>(s, r). (u # s, r)) (scanstring rest)))
         else (case unescape e of
                 None \<Rightarrow> None
               | Some u \<Rightarrow> map_option (\<lambda>(s, r). (u # s, r)) (scanstring cs)))
      else if (of_char c :: nat) < 32 then None
      else map_option (\<lambda>(s, r). (of_char c # s, r)) (scanstring (e # cs)))"

definition scan_digits :: "string \<Rightarrow> string \<times> string" where
  "scan_digits s = (takeWhile is_digit s, dropWhile is_digit s)"

definition scan_int_part :: "string \<Rightarrow> (string \<times> string) option" where
  "scan_int_part s =
     (case s of
        [] \<Rightarrow> None
      | c # cs \<Rightarrow>
          if c = CHR ''0'' then Some ([c], cs)
          else if is_digit c then Some (scan_digits s)
          else None)"

definition scan_frac :: "string \<Rightarrow> string \<times> string" where
  "scan_frac s =
     (case s of
        c # d # cs \<Rightarrow>
          if c = CHR ''.'' \<and> is_digit d
          then (c # fst (scan_digits (d # cs)), snd (scan_digits (d # cs)))
          else ([], s)
      | _ \<Rightarrow> ([], s))"

definition scan_exp :: "string \<Rightarrow> string \<times> string" where
  "scan_exp s =
     (case s of
        [] \<Rightarrow> ([], s)
      | e # cs \<Rightarrow>
          if e = CHR ''e'' \<or> e = CHR ''E'' then
            (case cs of
               [] \<Rightarrow> ([], s)
             | g # ds \<Rightarrow>
                 if (g = CHR ''+'' \<or> g = CHR ''-'') \<and> ds \<noteq> [] \<and> is_digit (hd ds)
                 then (e # g # fst (scan_digits ds), snd (scan_digits ds))
                 else if is_digit g
                 then (e # fst (scan_digits cs), snd (scan_digits cs))
                 else ([], s))
          else ([], s))"

definition scan_number :: "string \<Rightarrow> (json \<times> string) option" where
  "scan_number s =
     (let (neg, body) = (case s of [] \<Rightarrow> (False, s)
                         | c # cs \<Rightarrow> if c = CHR ''-'' then (True, cs) else (False, s))
      in case scan_int_part body of
           None \<Rightarrow> None
         | Some (ip, r1) \<Rightarrow>
             (let (fr, r2) = scan_frac r1; (ex, r3) = scan_exp r2
              in if fr = [] \<and> ex = []
                 then Some (JInt (if neg then - decimal ip else decimal ip), r3)
                 else Some (JFloat ((if neg then ''-'' else []) @ ip @ fr @ ex), r3)))"

definition scan_literal :: "string \<Rightarrow> (json \<times> string) option" where
  "scan_literal s =
     (if startswith s ''null'' then Some (JNull, drop 4 s)
      else if startswith s ''true'' then Some (JBool True, drop 4 s)
      else if startswith s ''false'' then Some (JBool False, drop 5 s)
      else (case scan_number s of
              Some r \<Rightarrow> Some r
            | None \<Rightarrow>
                if startswith s ''NaN'' then Some (JFloat ''NaN'', drop 3 s)
                else if startswith s ''Infinity'' then Some (JFloat ''Infinity'', drop 8 s)
                else if startswith s ''-Infinity'' then Some (JFloat ''-Infinity'', drop 9 s)
                else None))"

fun scan_once :: "nat \<Rightarrow> string \<Rightarrow> (json \<times> string) option"
and scan_array :: "nat \<Rightarrow> string \<Rightarrow> (json list \<times> string) option"
and scan_object :: "nat \<Rightarrow> string \<Rightarrow> ((ustring \<times> json) list \<times> string) option"
where
  "scan_once 0 s = None"
| "scan_once (Suc n) [] = None"
| "scan_once (Suc n) (c # cs) =
     (if c = CHR 0x22 then
        (case scanstring cs of None \<Rightarrow> None | Some (str, r) \<Rightarrow> Some (JString str, r))
      else if c = CHR ''{'' then
        (case skip_ws cs of
           [] \<Rightarrow> None
         | d # ds \<Rightarrow>
             if d = CHR ''}'' then Some (JObject [], ds)
             else (case scan_object n (d # ds) of
                     None \<Rightarrow> None
                   | Some (pairs, r) \<Rightarrow>
                       Some (JObject (foldl (\<lambda>al (k, v). AList.update k v al) [] pairs), r)))
      else if c = CHR ''['' then
        (case skip_ws cs of
           [] \<Rightarrow> None
         | d # ds \<Rightarrow>
             if d = CHR '']'' then Some (JArray [], ds)
             else (case scan_array n (d # ds) of
                     None \<Rightarrow> None
                   | Some (vs, r) \<Rightarrow> Some (JArray vs, r)))
      else scan_literal (c # cs))"
| "scan_array 0 s = None"
| "scan_array (Suc n) s =
     (case scan_once n s of
        None \<Rightarrow> None
      | Some (v, r) \<Rightarrow>
          (case skip_ws r of
             [] \<Rightarrow> None
           | d # ds \<Rightarrow>
               if d = CHR '']'' then Some ([v], ds)
               else if d = CHR '','' then
                 (case scan_array n (skip_ws ds) of
                    None \<Rightarrow> None
                  | Some (vs, r') \<Rightarrow> Some (v # vs, r'))
               else None))"
| "scan_object 0 s = None"
| "scan_object (Suc n) s =
     (case s of
        [] \<Rightarrow> None
      | q # qs \<Rightarrow>
          if q \<noteq> CHR 0x22 then None
          else (case scanstring qs of
                  None \<Rightarrow> None
                | Some (key, r) \<Rightarrow>
                    (case skip_ws r of
                       [] \<Rightarrow> None
                     | col # r1 \<Rightarrow>
                         if col \<noteq> CHR '':'' then None
                         else (case scan_once n (skip_ws r1) of
                                 None \<Rightarrow> None
                               | Some (v, r2) \<Rightarrow>
                                   (case skip_ws r2 of
                                      [] \<Rightarrow> None
                                    | d # ds \<Rightarrow>
                                        if d = CHR ''}'' then Some ([(key, v)], ds)
                                        else if d = CHR '','' then
                                          (case scan_object n (skip_ws ds) of
                                             None \<Rightarrow> None
                                           | Some (ps, r') \<Rightarrow> Some ((key, v) # ps, r'))
                                        else None)))))"

definition json_loads :: "string \<Rightarrow> json option" where
  "json_loads s =
     (case scan_once (2 * length s + 2) (skip_ws s) of
        None \<Rightarrow> None
      | Some (v, r) \<Rightarrow> if skip_ws r = [] then Some v else None)"


fun json_iter :: "json \<Rightarrow> json list option" where
  \<comment> \<open>what \<^verbatim>\<open>for f in value\<close> yields; \<open>None\<close> is the \<^verbatim>\<open>TypeError\<close> of a non-iterable\<close>
  "json_iter (JArray vs) = Some vs"
| "json_iter (JObject al) = Some (map (\<lambda>kv. JString (fst kv)) al)"
| "json_iter (JString s) = Some (map (\<lambda>c. JString [c]) s)"
| "json_iter _ = None"

definition json_span :: "char \<Rightarrow> char \<Rightarrow> string \<Rightarrow> string option" where
  \<comment> \<open>the \<^verbatim>\<open>find\<close>/\<^verbatim>\<open>rfind\<close>/slice written out at each site that reads an AI response\<close>
  "json_span opener closer ai_response =
     (let start_idx = str_find ai_response opener;
          end_idx = str_rfind ai_response closer + 1
      in if start_idx \<noteq> - 1 \<and> end_idx > 0
         then Some (slice ai_response start_idx end_idx)
         else None)"

text \<open>
  Reading a parsed value as the source does: \<^verbatim>\<open>d.get(key, default)\<close> and
  \<^verbatim>\<open>item[key]\<close> (which raise on a value that is not a \<^verbatim>\<open>dict\<close>), the truth value
  of a value in a condition, and \<^verbatim>\<open>", ".join(value)\<close>, which raises \<^verbatim>\<open>TypeError\<close>
  unless the value is a string, a \<^verbatim>\<open>dict\<close> or a list of strings.
\<close>

definition JStr :: "string \<Rightarrow> json" where
  "JStr s = JString (ustr s)"

definition JObj :: "(string \<times> json) list \<Rightarrow> json" where
  \<comment> \<open>a \<^verbatim>\<open>dict\<close> literal\<close>
  "JObj al = JObject (map (\<lambda>kv. (ustr (fst kv), snd kv)) al)"

definition dict_get :: "json \<Rightarrow> string \<Rightarrow> json \<Rightarrow> exn + json" where
  "dict_get d key dflt =
     (case d of
        JObject al \<Rightarrow> (case map_of al (ustr key) of Some v \<Rightarrow> Inr v | None \<Rightarrow> Inr dflt)
      | _ \<Rightarrow> Inl AttributeError)"

definition subscript :: "json \<Rightarrow> string \<Rightarrow> exn + json" where
  "subscript item key =
     (case item of
        JObject al \<Rightarrow>
          (case map_of al (ustr key) of Some v \<Rightarrow> Inr v | None \<Rightarrow> Inl (KeyError key))
      | _ \<Rightarrow> Inl TypeError)"

definition signed_decimal :: "string \<Rightarrow> int" where
  "signed_decimal s =
     (case s of
        [] \<Rightarrow> 0
      | c # cs \<Rightarrow> if c = CHR ''-'' then - decimal cs
                 else if c = CHR ''+'' then decimal cs
                 else decimal s)"

definition float_is_zero :: "string \<Rightarrow> bool" where
  \<comment> \<open>whether the lexeme of a number denotes the float zero: its value is 0 or rounds
      to 0, which is the case up to \<open>2 ^ - 1075\<close>\<close>
  "float_is_zero lexeme =
     (if lexeme \<in> set [''NaN'', ''Infinity'', ''-Infinity''] then False
      else (let body = (if startswith lexeme ''-'' then drop 1 lexeme else lexeme);
                mantissa = takeWhile (\<lambda>c. c \<noteq> CHR ''e'' \<and> c \<noteq> CHR ''E'') body;
                exponent = drop (length mantissa + 1) body;
                int_part = takeWhile (\<lambda>c. c \<noteq> CHR ''.'') mantissa;
                fraction = drop (length int_part + 1) mantissa;
                m = decimal (int_part @ fraction);
                e = signed_decimal exponent - int (length fraction)
            in m = 0 \<or> (e < 0 \<and> m * 2 ^ 1075 \<le> 10 ^ nat (- e))))"

fun truthy :: "json \<Rightarrow> bool" where
  "truthy JNull = False"
| "truthy (JBool b) = b"
| "truthy (JInt n) = (n \<noteq> 0)"
| "truthy (JFloat lexeme) = (\<not> float_is_zero lexeme)"
| "truthy (JString s) = (s \<noteq> [])"
| "truthy (JArray vs) = (vs \<noteq> [])"
| "truthy (JObject al) = (al \<noteq> [])"

fun string_items :: "json list \<Rightarrow> ustring list option" where
  "string_items [] = Some []"
| "string_items (JString s # vs) = map_option ((#) s) (string_items vs)"
| "string_items (v # vs) = None"

definition str_join :: "string \<Rightarrow> json \<Rightarrow> exn + ustring" where
  "str_join sep v =
     (case v of
        JString s \<Rightarrow> Inr (join (ustr sep) (map (\<lambda>c. [c]) s))
      | JArray vs \<Rightarrow>
          (case string_items vs of
             None \<Rightarrow> Inl TypeError
           | Some parts \<Rightarrow> Inr (join (ustr sep) parts))
      | JObject al \<Rightarrow> Inr (join (ustr sep) (map fst al))
      | _ \<Rightarrow> Inl TypeError)"

section \<open>Heuristic file selection\<close>

definition PRIORITY_PATTERNS :: "string list" where
  "PRIORITY_PATTERNS =
     [''package.json'', ''pom.xml'', ''build.gradle'', ''Cargo.toml'', ''go.mod'',
      ''requirements.txt'', ''setup.py'', ''pyproject.toml'', ''composer.json'',
      ''Gemfile'', ''mix.exs'', ''project.clj'', ''deps.edn'',
      ''tsconfig.json'', ''webpack.config.js'', ''vite.config.js'', ''rollup.config.js'',
      ''babel.config.js'', ''jest.config.js'', ''cypress.json'',
      ''Dockerfile'', ''.github/workflows'', ''.gitlab-ci.yml'', ''Jenkinsfile'',
      ''docker-compose.yml'', ''k8s.yml'', ''kubernetes.yml'',
      ''README.md'', ''CONTRIBUTING.md'', ''.env.example'', ''makefile'', ''Makefile'']"

text \<open>
  The inner loop \<^verbatim>\<open>for i, pattern in enumerate(PRIORITY_PATTERNS)\<close> with its
  \<^verbatim>\<open>break\<close>: \<open>n\<close> is the length of the table, \<open>i\<close> the index of the pattern
  at the head of the remaining list.
\<close>

primrec scan_patterns :: "nat \<Rightarrow> nat \<Rightarrow> string list \<Rightarrow> string \<Rightarrow> int" where
  "scan_patterns n i [] file_path = 0"
| "scan_patterns n i (pattern # rest) file_path =
     (if contains (lower file_path) (lower pattern)
      then (int n - int i) * 10
      else scan_patterns n (Suc i) rest file_path)"

definition file_score :: "string list \<Rightarrow> string \<Rightarrow> int" where
  "file_score patterns file_path =
     (let file_name = lower (basename file_path);
          score = 0 + scan_patterns (length patterns) 0 patterns file_path;
          score = (if count_list file_path CHR ''/'' = 0 then score + 5 else score);
          score = (if contains file_name ''config'' \<or> contains file_name ''setup''
                   then score + 3 else score);
          score = (if file_name \<in> set [''readme.md'', ''license'', ''contributing.md'']
                   then score + 2 else score)
      in score)"

primrec scored_files :: "string list \<Rightarrow> string list \<Rightarrow> (string \<times> int) list" where
  "scored_files patterns [] = []"
| "scored_files patterns (file_path # rest) =
     (let score = file_score patterns file_path
      in if score > 0 then (file_path, score) # scored_files patterns rest
         else scored_files patterns rest)"

definition sort_by_score_reverse :: "(string \<times> int) list \<Rightarrow> (string \<times> int) list" where
  \<comment> \<open>\<^verbatim>\<open>list.sort(key=lambda x: x[1], reverse=True)\<close>: a stable sort, largest key first\<close>
  "sort_by_score_reverse xs = sort_key (\<lambda>x. - snd x) xs"

definition heuristic_file_selection :: "config \<Rightarrow> string list \<Rightarrow> string list" where
  "heuristic_file_selection cfg all_files =
     map fst (slice_to (sort_by_score_reverse (scored_files PRIORITY_PATTERNS all_files))
                (max_files_to_analyze cfg))"

section \<open>AI client\<close>

text \<open>
  One attempt of \<^verbatim>\<open>client.chat.completions.create\<close> either raises an exception, given
  by its text \<^verbatim>\<open>str(e)\<close>, or returns a response, given by the message contents of its
  choices (a content may be \<^verbatim>\<open>None\<close>). The endpoint is a function from the attempt
  number to that outcome. The client returns its result together with the calls and
  sleeps it performed, in order.
\<close>

datatype ai_outcome = Raises string | Choices "string option list"

datatype event = Call nat | Sleep nat

definition MODEL_NAME_MAP :: "(string \<times> string) list" where
  "MODEL_NAME_MAP =
     [(''claude-sonnet'', ''anthropic.claude-3-7-sonnet-20250219-v1:0''),
      (''claude-opus'', ''anthropic.claude-opus-4-20250514-v1:0''),
      (''claude-haiku'', ''anthropic.claude-3-5-haiku-20241022-v1:0''),
      (''gpt-4'', ''gpt-4''),
      (''gpt-4-turbo'', ''gpt-4''),
      (''gpt-3.5'', ''gpt-35-turbo''),
      (''gemini'', ''vertex_ai/gemini-pro''),
      (''gemini-pro'', ''vertex_ai/gemini-pro'')]"

definition DEFAULT_MODEL :: string where
  "DEFAULT_MODEL = ''claude-sonnet''"

definition model_name_of :: "string \<Rightarrow> string" where
  "model_name_of model =
     (case map_of MODEL_NAME_MAP model of
        Some n \<Rightarrow> n
      | None \<Rightarrow> (case map_of MODEL_NAME_MAP DEFAULT_MODEL of Some n \<Rightarrow> n | None \<Rightarrow> []))"

fun str_nat :: "nat \<Rightarrow> string" where
  "str_nat n =
     (if n < 10 then [char_of (48 + n)] else str_nat (n div 10) @ [char_of (48 + n mod 10)])"

definition is_auth_error :: "string \<Rightarrow> bool" where
  "is_auth_error e =
     list_ex (\<lambda>marker. contains (lower e) marker)
       [''authentication'', ''api_key'', ''unauthorized'', ''forbidden'']"

definition attempt_result :: "ai_outcome \<Rightarrow> string + string option" where
  \<comment> \<open>the body of the \<^verbatim>\<open>try\<close>: the first choice's content, or the text of what was raised\<close>
  "attempt_result out =
     (case out of
        Raises e \<Rightarrow> Inl e
      | Choices [] \<Rightarrow> Inl ''AI model returned empty response''
      | Choices (c # cs) \<Rightarrow> Inr c)"

fun ai_attempts ::
  "string \<Rightarrow> (nat \<Rightarrow> ai_outcome) \<Rightarrow> nat \<Rightarrow> nat \<Rightarrow> (exn + string option) \<times> event list"
where
  "ai_attempts model ai attempt 0 =
     (Inl (AIModelError ''Unexpected error in AI model call''), [])"
| "ai_attempts model ai attempt (Suc remaining) =
     (case attempt_result (ai attempt) of
        Inr content \<Rightarrow> (Inr content, [Call attempt])
      | Inl e \<Rightarrow>
          if is_auth_error e
          then (Inl (AIModelError (''Authentication failed for '' @ model @ '': '' @ e)),
                [Call attempt])
          else if attempt = AI_MAX_RETRIES - 1
          then (Inl (AIModelError (''AI model '' @ model_name_of model @ '' failed after ''
                       @ str_nat AI_MAX_RETRIES @ '' attempts: '' @ e)),
                [Call attempt])
          else (let wait_time = AI_RETRY_DELAY * 2 ^ attempt;
                    (r, evs) = ai_attempts model ai (Suc attempt) remaining
                in (r, Call attempt # Sleep wait_time # evs)))"

definition call_ai_model ::
  "string \<Rightarrow> (nat \<Rightarrow> ai_outcome) \<Rightarrow> (exn + string option) \<times> event list"
where
  "call_ai_model model ai = ai_attempts model ai 0 AI_MAX_RETRIES"

section \<open>AI file selection\<close>

text \<open>
  Both AI-driven steps build their prompt before the \<^verbatim>\<open>try\<close> statement. The prompt
  text itself is not modelled (the answer of the model is an input, the endpoint
  above), but what building it can raise is: \<^verbatim>\<open>repo_info.get('topics', [])\<close> needs a
  \<^verbatim>\<open>dict\<close>, and a topics value that is true is joined with \<^verbatim>\<open>", "\<close>. The other
  interpolations are further \<^verbatim>\<open>get\<close> calls and conversions to text, which do not
  raise once the first \<^verbatim>\<open>get\<close> has succeeded. \<open>prompt_topics\<close> is the
  \<^verbatim>\<open>topics_str\<close> of the source, with the text used for absent topics as an argument.
\<close>

definition prompt_topics :: "string \<Rightarrow> json \<Rightarrow> exn + ustring" where
  "prompt_topics none_text repo_info =
     (case dict_get repo_info ''topics'' (JArray []) of
        Inl e \<Rightarrow> Inl e
      | Inr topics \<Rightarrow> if truthy topics then str_join '', '' topics else Inr (ustr none_text))"

text \<open>
  \<^verbatim>\<open>_ai_select_files_to_analyze\<close>. \<open>ai_select_try\<close> is the \<^verbatim>\<open>try\<close> statement and
  the fallback after it: every \<^verbatim>\<open>except\<close> branch and every fall-through reaches the
  heuristic selection at the end of the function. An exception raised while the
  prompt is built is outside the \<^verbatim>\<open>try\<close> and leaves the function.
\<close>

definition valid_selected :: "string list \<Rightarrow> json list \<Rightarrow> string list" where
  \<comment> \<open>\<^verbatim>\<open>[f for f in selected_files if isinstance(f, str) and f in all_files]\<close>\<close>
  "valid_selected all_files selected_files =
     concat (map (\<lambda>f. case f of
                          JString u \<Rightarrow>
                            (case latin1 u of
                               Some s \<Rightarrow> if s \<in> set all_files then [s] else []
                             | None \<Rightarrow> [])
                        | _ \<Rightarrow> [])
                 selected_files)"

definition ai_select_try ::
  "string \<Rightarrow> config \<Rightarrow> (nat \<Rightarrow> ai_outcome) \<Rightarrow> string list \<Rightarrow> string list"
where
  "ai_select_try model cfg ai all_files =
     (case fst (call_ai_model model ai) of
        Inl e \<Rightarrow> heuristic_file_selection cfg all_files
      | Inr None \<Rightarrow> heuristic_file_selection cfg all_files
      | Inr (Some ai_response) \<Rightarrow>
          (case json_span CHR ''['' CHR '']'' ai_response of
             None \<Rightarrow> heuristic_file_selection cfg all_files
           | Some json_str \<Rightarrow>
               (case json_loads json_str of
                  None \<Rightarrow> heuristic_file_selection cfg all_files
                | Some selected_files \<Rightarrow>
                    (case json_iter selected_files of
                       None \<Rightarrow> heuristic_file_selection cfg all_files
                     | Some items \<Rightarrow>
                         (let valid = valid_selected all_files items
                          in if valid \<noteq> []
                             then slice_to valid (max_files_to_analyze cfg)
                             else heuristic_file_selection cfg all_files)))))"

definition ai_select_files_to_analyze ::
  "string \<Rightarrow> config \<Rightarrow> (nat \<Rightarrow> ai_outcome) \<Rightarrow> string list \<Rightarrow> json \<Rightarrow> exn + string list"
where
  "ai_select_files_to_analyze model cfg ai all_files repo_info =
     (case prompt_topics ''None specified'' repo_info of
        Inl e \<Rightarrow> Inl e
      | Inr topics_str \<Rightarrow> Inr (ai_select_try model cfg ai all_files))"

section \<open>Hosting API\<close>

text \<open>
  A call of \<^verbatim>\<open>requests.get\<close> either raises (a timeout, or another
  \<^verbatim>\<open>RequestException\<close> given by its text) or returns a response. Of a response the
  model keeps what the source reads: the status code, the body text, the
  \<^verbatim>\<open>X-RateLimit-Reset\<close> header, the text of the \<^verbatim>\<open>HTTPError\<close> that
  \<^verbatim>\<open>raise_for_status\<close> raises when the status is 4xx or 5xx, and what the body
  decodes to.
\<close>

record 'a response =
  status_code :: int
  resp_text :: string
  reset_header :: "string option"
  status_error :: string
  body :: 'a

datatype 'a http_outcome = Timeout | RequestException string | Response "'a response"

definition is_rate_limited :: "'a response \<Rightarrow> bool" where
  "is_rate_limited r = (status_code r = 403 \<and> contains (lower (resp_text r)) ''rate limit'')"

definition raises_for_status :: "'a response \<Rightarrow> bool" where
  "raises_for_status r = (400 \<le> status_code r \<and> status_code r < 600)"

subsection \<open>Metadata and file tree\<close>

text \<open>
  The result of the \<^verbatim>\<open>try\<close> body of one attempt: a value returned, one of the two
  exceptions the \<^verbatim>\<open>except\<close> clauses catch, or any other exception, which leaves the
  function. \<^verbatim>\<open>response.json()\<close> raises a \<^verbatim>\<open>RequestException\<close> on an undecodable body.
\<close>

datatype 'a tried = Returned 'a | RaisedTimeout | RaisedRequest string | Uncaught exn

datatype 'a json_body = InvalidJson string | Json 'a

text \<open>
  \<^verbatim>\<open>int(reset_time)\<close> on the header text; \<open>None\<close> is \<^verbatim>\<open>ValueError\<close>.
  \<^verbatim>\<open>datetime.fromtimestamp\<close> depends on the platform and is an argument of the
  metadata fetch: \<open>Some e\<close> when it raises \<open>e\<close>.
\<close>

definition is_int_space :: "char \<Rightarrow> bool" where
  \<comment> \<open>the whitespace \<^verbatim>\<open>int\<close> skips around the digits: the six ASCII ones, and of the
      code points above 127 those that are Unicode spaces\<close>
  "is_int_space c = ((of_char c :: nat) \<in> set [9, 10, 11, 12, 13, 32, 133, 160])"

definition int_strip :: "string \<Rightarrow> string" where
  "int_strip s = rev (dropWhile is_int_space (rev (dropWhile is_int_space s)))"

definition py_int :: "string \<Rightarrow> int option" where
  "py_int s =
     (let t = int_strip s;
          (neg, ds) = (case t of
                         [] \<Rightarrow> (False, [])
                       | c # cs \<Rightarrow> if c = CHR ''-'' then (True, cs)
                                  else if c = CHR ''+'' then (False, cs)
                                  else (False, t));
          groups = split_on CHR ''_'' ds
      in if list_all (\<lambda>g. g \<noteq> [] \<and> list_all is_digit g) groups
         then Some ((if neg then - 1 else 1) * decimal (concat groups))
         else None)"

definition rate_limit_raise :: "(int \<Rightarrow> exn option) \<Rightarrow> 'a response \<Rightarrow> exn" where
  "rate_limit_raise fromtimestamp r =
     (case reset_header r of
        None \<Rightarrow> GitHubAPIError ''GitHub API rate limit exceeded''
      | Some reset_time \<Rightarrow>
          if reset_time = [] then GitHubAPIError ''GitHub API rate limit exceeded''
          else (case py_int reset_time of
                  None \<Rightarrow> ValueError
                | Some n \<Rightarrow>
                    (case fromtimestamp n of
                       Some e \<Rightarrow> e
                     | None \<Rightarrow> GitHubAPIError ''GitHub API rate limit exceeded'')))"

definition repo_info_try ::
  "(int \<Rightarrow> exn option) \<Rightarrow> json json_body http_outcome \<Rightarrow> json tried"
where
  "repo_info_try fromtimestamp out =
     (case out of
        Timeout \<Rightarrow> RaisedTimeout
      | RequestException e \<Rightarrow> RaisedRequest e
      | Response r \<Rightarrow>
          if is_rate_limited r then Uncaught (rate_limit_raise fromtimestamp r)
          else if raises_for_status r then RaisedRequest (status_error r)
          else (case body r of
                  InvalidJson e \<Rightarrow> RaisedRequest e
                | Json repo_data \<Rightarrow> Returned repo_data))"

fun repo_info_attempts ::
  "(int \<Rightarrow> exn option) \<Rightarrow> (nat \<Rightarrow> json json_body http_outcome) \<Rightarrow> nat \<Rightarrow> nat \<Rightarrow>
   (exn + json) \<times> event list"
where
  "repo_info_attempts fromtimestamp api attempt 0 = (Inr (JObject []), [])"
| "repo_info_attempts fromtimestamp api attempt (Suc remaining) =
     (case repo_info_try fromtimestamp (api attempt) of
        Returned repo_data \<Rightarrow> (Inr repo_data, [Call attempt])
      | Uncaught e \<Rightarrow> (Inl e, [Call attempt])
      | RaisedTimeout \<Rightarrow>
          (let (r, evs) = repo_info_attempts fromtimestamp api (Suc attempt) remaining
           in if attempt < 2 then (r, Call attempt # Sleep (2 ^ attempt) # evs)
              else (r, Call attempt # evs))
      | RaisedRequest e \<Rightarrow>
          if attempt < 2
          then (let (r, evs) = repo_info_attempts fromtimestamp api (Suc attempt) remaining
                in (r, Call attempt # Sleep (2 ^ attempt) # evs))
          else (Inl (GitHubAPIError (''Failed to fetch repository info: '' @ e)),
                [Call attempt]))"

definition fetch_repo_info ::
  "(int \<Rightarrow> exn option) \<Rightarrow> (nat \<Rightarrow> json json_body http_outcome) \<Rightarrow> (exn + json) \<times> event list"
where
  "fetch_repo_info fromtimestamp api = repo_info_attempts fromtimestamp api 0 3"

fun blob_paths :: "json list \<Rightarrow> exn + json list" where
  "blob_paths [] = Inr []"
| "blob_paths (item # items) =
     (case subscript item ''type'' of
        Inl e \<Rightarrow> Inl e
      | Inr ty \<Rightarrow>
          if ty = JStr ''blob''
          then (case subscript item ''path'' of
                  Inl e \<Rightarrow> Inl e
                | Inr p \<Rightarrow> (case blob_paths items of Inl e \<Rightarrow> Inl e | Inr ps \<Rightarrow> Inr (p # ps)))
          else blob_paths items)"

definition tree_file_paths :: "json \<Rightarrow> exn + json list" where
  "tree_file_paths tree_data =
     (case dict_get tree_data ''tree'' (JArray []) of
        Inl e \<Rightarrow> Inl e
      | Inr tree \<Rightarrow>
          (case json_iter tree of
             None \<Rightarrow> Inl TypeError
           | Some items \<Rightarrow> blob_paths items))"

definition file_tree_try :: "json json_body http_outcome \<Rightarrow> json list tried" where
  "file_tree_try out =
     (case out of
        Timeout \<Rightarrow> RaisedTimeout
      | RequestException e \<Rightarrow> RaisedRequest e
      | Response r \<Rightarrow>
          if is_rate_limited r then Uncaught (GitHubAPIError ''GitHub API rate limit exceeded'')
          else if raises_for_status r then RaisedRequest (status_error r)
          else (case body r of
                  InvalidJson e \<Rightarrow> RaisedRequest e
                | Json tree_data \<Rightarrow>
                    (case tree_file_paths tree_data of
                       Inl e \<Rightarrow> Uncaught e
                     | Inr file_paths \<Rightarrow> Returned file_paths)))"

fun file_tree_attempts ::
  "(nat \<Rightarrow> json json_body http_outcome) \<Rightarrow> nat \<Rightarrow> nat \<Rightarrow> (exn + json list) \<times> event list"
where
  "file_tree_attempts api attempt 0 = (Inr [], [])"
| "file_tree_attempts api attempt (Suc remaining) =
     (case file_tree_try (api attempt) of
        Returned file_paths \<Rightarrow> (Inr file_paths, [Call attempt])
      | Uncaught e \<Rightarrow> (Inl e, [Call attempt])
      | RaisedTimeout \<Rightarrow>
          (let (r, evs) = file_tree_attempts api (Suc attempt) remaining
           in if attempt < 2 then (r, Call attempt # Sleep (2 ^ attempt) # evs)
              else (r, Call attempt # evs))
      | RaisedRequest e \<Rightarrow>
          if attempt < 2
          then (let (r, evs) = file_tree_attempts api (Suc attempt) remaining
                in (r, Call attempt # Sleep (2 ^ attempt) # evs))
          else (Inl (GitHubAPIError (''Failed to fetch file tree: '' @ e)), [Call attempt]))"

definition fetch_complete_file_tree ::
  "(nat \<Rightarrow> json json_body http_outcome) \<Rightarrow> (exn + json list) \<times> event list"
where
  "fetch_complete_file_tree api = file_tree_attempts api 0 3"

definition rate_limit_response :: "string option \<Rightarrow> json json_body http_outcome" where
  "rate_limit_response reset =
     Response \<lparr> status_code = 403, resp_text = ''API rate limit exceeded for 203.0.113.7.'',
                reset_header = reset, status_error = ''403 Client Error'',
                body = Json (JObject []) \<rparr>"

subsection \<open>File contents\<close>

text \<open>
  \<^verbatim>\<open>_fetch_file_contents\<close>. The requested paths come paired with the outcome of their
  request. The body of a content response is classified by what the source does with
  it: not a JSON object, another encoding than base64, or base64 content that fails to
  decode, decodes to bytes that are not UTF-8, or decodes to a text.
  \<^verbatim>\<open>file_contents\<close> is a Python \<^verbatim>\<open>dict\<close>: an association list in insertion order,
  where storing under a present key replaces the value in place.
\<close>

datatype decoded = DecodeFailed | Binary | Text string

datatype content_body = BodyError | OtherEncoding | Base64Content decoded

definition truncation_marker :: string where
  "truncation_marker = CHR 0x0A # ''... (truncated)''"

datatype fetched = Break | Continue | Stored string

text \<open>One iteration's \<^verbatim>\<open>try\<close> block: what it does to the loop.\<close>

definition fetch_one :: "config \<Rightarrow> content_body http_outcome \<Rightarrow> fetched" where
  "fetch_one cfg out =
     (case out of
        Timeout \<Rightarrow> Continue
      | RequestException e \<Rightarrow> Continue
      | Response r \<Rightarrow>
          if is_rate_limited r then Break
          else if status_code r = 404 then Continue
          else if raises_for_status r then Continue
          else (case body r of
                  BodyError \<Rightarrow> Continue
                | OtherEncoding \<Rightarrow> Continue
                | Base64Content DecodeFailed \<Rightarrow> Continue
                | Base64Content Binary \<Rightarrow> Continue
                | Base64Content (Text decoded_text) \<Rightarrow>
                    (let max_size = max_file_size cfg
                     in if int (length decoded_text) > max_size
                        then Stored (slice_to decoded_text max_size @ truncation_marker)
                        else Stored decoded_text)))"

fun fetch_loop ::
  "int \<Rightarrow> config \<Rightarrow> (string \<times> content_body http_outcome) list \<Rightarrow>
   (string \<times> string) list \<Rightarrow> int \<Rightarrow> (string \<times> string) list \<times> int"
where
  "fetch_loop max_total_size cfg [] file_contents total_content_size =
     (file_contents, total_content_size)"
| "fetch_loop max_total_size cfg ((file_path, out) # rest) file_contents total_content_size =
     (if total_content_size \<ge> max_total_size then (file_contents, total_content_size)
      else (case fetch_one cfg out of
              Break \<Rightarrow> (file_contents, total_content_size)
            | Continue \<Rightarrow>
                fetch_loop max_total_size cfg rest file_contents total_content_size
            | Stored decoded_text \<Rightarrow>
                fetch_loop max_total_size cfg rest
                  (AList.update file_path decoded_text file_contents)
                  (total_content_size + int (length decoded_text))))"

definition fetch_file_contents ::
  "config \<Rightarrow> (string \<times> content_body http_outcome) list \<Rightarrow> (string \<times> string) list"
where
  "fetch_file_contents cfg requests =
     fst (fetch_loop MAX_TOTAL_CONTENT_SIZE cfg requests [] 0)"

definition content_length :: "(string \<times> string) list \<Rightarrow> int" where
  "content_length file_contents = (\<Sum>kv\<leftarrow>file_contents. int (length (snd kv)))"

definition text_response :: "string \<Rightarrow> content_body http_outcome" where
  "text_response s =
     Response \<lparr> status_code = 200, resp_text = [], reset_header = None, status_error = [],
                body = Base64Content (Text s) \<rparr>"

definition all_but_one_below :: "int \<Rightarrow> (string \<times> string) list \<Rightarrow> bool" where
  "all_but_one_below budget fc =
     (fc = [] \<or> (\<exists>kv \<in> set fc. content_length fc < budget + int (length (snd kv))))"

section \<open>Structure analysis\<close>

text \<open>
  \<^verbatim>\<open>_heuristic_structure_analysis\<close> builds its directory lists by iterating a Python
  \<^verbatim>\<open>set\<close>, whose order the language leaves open: the set is a duplicate-free list and
  the iteration order is the argument \<open>set_order\<close>. The counts of extensions are a
  \<^verbatim>\<open>dict\<close> in insertion order.
\<close>

definition set_add :: "'a \<Rightarrow> 'a list \<Rightarrow> 'a list" where
  "set_add x xs = (if x \<in> set xs then xs else xs @ [x])"

definition splitext_ext :: "string \<Rightarrow> string" where
  "splitext_ext p =
     (let sepIndex = str_rfind p CHR ''/'';
          dotIndex = str_rfind p CHR ''.''
      in if dotIndex > sepIndex
            \<and> list_ex (\<lambda>c. c \<noteq> CHR ''.'') (slice p (sepIndex + 1) dotIndex)
         then slice_from p dotIndex else [])"

definition file_directories :: "string \<Rightarrow> string list" where
  "file_directories file_path =
     (let dir_parts = butlast (split_on CHR ''/'' file_path)
      in map (\<lambda>i. join ''/'' (take (Suc i) dir_parts)) [0 ..< length dir_parts])"

definition collect_directories :: "string list \<Rightarrow> string list" where
  "collect_directories all_files =
     foldl (\<lambda>directories file_path. foldl (\<lambda>ds d. set_add d ds) directories
                                        (file_directories file_path))
       [] all_files"

definition count_extensions :: "string list \<Rightarrow> (string \<times> int) list" where
  "count_extensions all_files =
     foldl (\<lambda>file_extensions file_path.
              if CHR ''.'' \<in> set file_path
              then (let ext = lower (splitext_ext file_path)
                    in AList.update ext
                         ((case map_of file_extensions ext of None \<Rightarrow> 0 | Some n \<Rightarrow> n) + 1)
                         file_extensions)
              else file_extensions)
       [] all_files"

definition extension_to_language :: "(string \<times> string) list" where
  "extension_to_language =
     [(''.js'', ''JavaScript''), (''.ts'', ''TypeScript''), (''.py'', ''Python''),
      (''.java'', ''Java''), (''.go'', ''Go''), (''.rs'', ''Rust''), (''.cpp'', ''C++''),
      (''.c'', ''C''), (''.cs'', ''C#''), (''.rb'', ''Ruby''), (''.php'', ''PHP''),
      (''.swift'', ''Swift''), (''.kt'', ''Kotlin''), (''.scala'', ''Scala'')]"

definition detect_languages :: "(string \<times> int) list \<Rightarrow> string list" where
  "detect_languages file_extensions =
     concat (map (\<lambda>(ext, count).
                    case map_of extension_to_language ext of
                      Some language \<Rightarrow> if count > 0 then [language] else []
                    | None \<Rightarrow> [])
                 file_extensions)"

definition str_list :: "string list \<Rightarrow> json" where
  "str_list xs = JArray (map JStr xs)"

definition dirs_containing :: "string list \<Rightarrow> string list \<Rightarrow> string list" where
  "dirs_containing directories words =
     filter (\<lambda>d. list_ex (\<lambda>w. contains d w) words) directories"

definition heuristic_structure_analysis ::
  "(string list \<Rightarrow> string list) \<Rightarrow> string list \<Rightarrow> json \<Rightarrow> exn + json"
where
  "heuristic_structure_analysis set_order all_files repo_info =
     (let directories = set_order (collect_directories all_files);
          file_extensions = count_extensions all_files;
          languages_detected = detect_languages file_extensions;
          has_tests = list_ex (\<lambda>f. contains (lower f) ''test'' \<or> contains (lower f) ''spec'')
                        all_files;
          has_ci_cd = list_ex (\<lambda>f. contains f ''.github/'' \<or> contains f ''.gitlab-ci''
                                   \<or> contains (lower f) ''jenkinsfile'') all_files;
          has_docker = list_ex (\<lambda>f. contains (lower f) ''dockerfile''
                                    \<or> contains (lower f) ''docker-compose'') all_files;
          has_docs = list_ex (\<lambda>f. contains (lower f) ''readme'' \<or> contains (lower f) ''doc'')
                       all_files;
          package_json_count = length (filter (\<lambda>f. endswith f ''package.json'') all_files);
          is_monorepo = (package_json_count > 1
                         \<or> list_ex (\<lambda>f. contains f ''lerna.json'' \<or> contains f ''nx.json'')
                              all_files)
      in case dict_get repo_info ''language'' (JStr ''Unknown'') of
           Inl e \<Rightarrow> Inl e
         | Inr primary_language \<Rightarrow> Inr (JObj
           [(''directories'', JObj
               [(''main_directories'', str_list (slice_to (sort directories) 10)),
                (''source_directories'',
                   str_list (dirs_containing directories [''src'', ''lib'', ''app''])),
                (''config_directories'',
                   str_list (dirs_containing directories [''config'', ''conf'', ''.github''])),
                (''test_directories'',
                   str_list (dirs_containing directories [''test'', ''spec'', ''__tests__''])),
                (''doc_directories'',
                   str_list (dirs_containing directories [''doc'', ''docs'', ''documentation'']))]),
            (''languages'', JObj
               [(''primary_language'', primary_language),
                (''secondary_languages'', str_list (slice_to languages_detected 5)),
                (''language_distribution'',
                   JObject (foldl (\<lambda>d lang. AList.update (ustr lang) (JStr ''estimated'') d) []
                              (slice_to languages_detected 3))),
                (''frameworks_detected'', JArray [])]),
            (''project_type'', JObj
               [(''architecture'',
                   JStr (if is_monorepo then ''monorepo'' else ''single-project'')),
                (''complexity'', JStr ''moderate''),
                (''domain'', JStr ''unknown''),
                (''scale'', JStr ''unknown'')]),
            (''features'', JObj
               [(''has_tests'', JBool has_tests),
                (''has_ci_cd'', JBool has_ci_cd),
                (''has_documentation'', JBool has_docs),
                (''has_docker'', JBool has_docker),
                (''has_database'', JBool False),
                (''has_api'', JBool False),
                (''has_frontend'',
                   JBool (list_ex (\<lambda>ext. ext \<in> fst ` set file_extensions)
                            [''.html'', ''.css'', ''.js'', ''.ts''])),
                (''has_backend'',
                   JBool (list_ex (\<lambda>ext. ext \<in> fst ` set file_extensions)
                            [''.py'', ''.java'', ''.go'', ''.php'']))]),
            (''monorepo_analysis'', JObj
               [(''is_monorepo'', JBool is_monorepo),
                (''workspace_tool'', JStr ''unknown''),
                (''packages'', JArray []),
                (''shared_dependencies'', JBool False)]),
            (''build_system'', JObj
               [(''build_tools'', JArray []),
                (''package_managers'', JArray []),
                (''bundlers'', JArray []),
                (''task_runners'', JArray [])]),
            (''deployment'', JObj
               [(''deployment_targets'', JArray []),
                (''containerization'', JStr (if has_docker then ''docker'' else ''none'')),
                (''infrastructure_as_code'', JStr ''none'')]),
            (''quality_assurance'', JObj
               [(''linting'', JArray []),
                (''formatting'', JArray []),
                (''testing_frameworks'', JArray []),
                (''code_coverage'', JBool False)]),
            (''insights'', JObj
               [(''architectural_patterns'', JArray []),
                (''notable_conventions'', JArray []),
                (''potential_improvements'', JArray []),
                (''estimated_team_size'', JStr ''unknown''),
                (''maintenance_level'', JStr ''unknown''),
                (''fallback_analysis'', JBool True)])]))"

text \<open>
  \<^verbatim>\<open>_ai_analyze_repo_structure\<close>: \<open>ai_analyze_try\<close> is the \<^verbatim>\<open>try\<close> statement and the
  fallback after it; the prompt is built before it, outside the \<^verbatim>\<open>try\<close>.
\<close>

definition ai_analyze_try ::
  "string \<Rightarrow> (string list \<Rightarrow> string list) \<Rightarrow> (nat \<Rightarrow> ai_outcome) \<Rightarrow> string list \<Rightarrow>
   json \<Rightarrow> exn + json"
where
  "ai_analyze_try model set_order ai all_files repo_info =
     (case fst (call_ai_model model ai) of
        Inl e \<Rightarrow> heuristic_structure_analysis set_order all_files repo_info
      | Inr None \<Rightarrow> heuristic_structure_analysis set_order all_files repo_info
      | Inr (Some ai_response) \<Rightarrow>
          (case json_span CHR ''{'' CHR ''}'' ai_response of
             None \<Rightarrow> heuristic_structure_analysis set_order all_files repo_info
           | Some json_str \<Rightarrow>
               (case json_loads json_str of
                  None \<Rightarrow> heuristic_structure_analysis set_order all_files repo_info
                | Some structure_analysis \<Rightarrow> Inr structure_analysis)))"

definition ai_analyze_repo_structure ::
  "string \<Rightarrow> (string list \<Rightarrow> string list) \<Rightarrow> (nat \<Rightarrow> ai_outcome) \<Rightarrow> string list \<Rightarrow>
   json \<Rightarrow> exn + json"
where
  "ai_analyze_repo_structure model set_order ai all_files repo_info =
     (case prompt_topics ''None'' repo_info of
        Inl e \<Rightarrow> Inl e
      | Inr topics_str \<Rightarrow> ai_analyze_try model set_order ai all_files repo_info)"

text \<open>
  The shape of a structure analysis: the nine fields and, below each, the fields the
  structure prompt of the source lists.
\<close>

definition lookup :: "json \<Rightarrow> string \<Rightarrow> json option" where
  "lookup j key = (case j of JObject al \<Rightarrow> map_of al (ustr key) | _ \<Rightarrow> None)"

definition has_keys :: "string list \<Rightarrow> json \<Rightarrow> bool" where
  "has_keys keys j = list_all (\<lambda>k. lookup j k \<noteq> None) keys"

definition STRUCTURE_SCHEMA :: "(string \<times> string list) list" where
  "STRUCTURE_SCHEMA =
     [(''directories'', [''main_directories'', ''source_directories'', ''config_directories'',
                         ''test_directories'', ''doc_directories'']),
      (''languages'', [''primary_language'', ''secondary_languages'', ''language_distribution'',
                       ''frameworks_detected'']),
      (''project_type'', [''architecture'', ''complexity'', ''domain'', ''scale'']),
      (''features'', [''has_tests'', ''has_ci_cd'', ''has_documentation'', ''has_docker'',
                      ''has_database'', ''has_api'', ''has_frontend'', ''has_backend'']),
      (''monorepo_analysis'', [''is_monorepo'', ''workspace_tool'', ''packages'',
                               ''shared_dependencies'']),
      (''build_system'', [''build_tools'', ''package_managers'', ''bundlers'', ''task_runners'']),
      (''deployment'', [''deployment_targets'', ''containerization'',
                        ''infrastructure_as_code'']),
      (''quality_assurance'', [''linting'', ''formatting'', ''testing_frameworks'',
                               ''code_coverage'']),
      (''insights'', [''architectural_patterns'', ''notable_conventions'',
                      ''potential_improvements'', ''estimated_team_size'',
                      ''maintenance_level''])]"

definition full_shape :: "json \<Rightarrow> bool" where
  "full_shape j = has_keys (map fst STRUCTURE_SCHEMA) j"

definition complete_shape :: "json \<Rightarrow> bool" where
  "complete_shape j =
     list_all (\<lambda>(field, subfields).
                 case lookup j field of None \<Rightarrow> False | Some sub \<Rightarrow> has_keys subfields sub)
       STRUCTURE_SCHEMA"

definition fallback_marked :: "json \<Rightarrow> bool" where
  "fallback_marked j =
     (case lookup j ''insights'' of
        None \<Rightarrow> False
      | Some insights \<Rightarrow> lookup insights ''fallback_analysis'' = Some (JBool True))"

section \<open>Result extraction\<close>

text \<open>
  The three sites that read an AI response slice it with \<^const>\<open>json_span\<close> and hand the
  slice to \<^verbatim>\<open>json.loads\<close>; \<open>extract_json\<close> is that sequence with its two failures.
  \<open>embedded_json\<close> lists the pieces of a text that begin with the opening delimiter,
  end with the closing one and are well-formed JSON.
\<close>

datatype extract_error = NoPayload | NotJson

definition extract_json :: "char \<Rightarrow> char \<Rightarrow> string \<Rightarrow> extract_error + json" where
  "extract_json opener closer ai_response =
     (case json_span opener closer ai_response of
        None \<Rightarrow> Inl NoPayload
      | Some json_str \<Rightarrow>
          (case json_loads json_str of None \<Rightarrow> Inl NotJson | Some v \<Rightarrow> Inr v))"

definition embedded_json :: "char \<Rightarrow> char \<Rightarrow> string \<Rightarrow> string list" where
  "embedded_json opener closer txt =
     [s. i \<leftarrow> [0 ..< length txt], txt ! i = opener,
         j \<leftarrow> [i ..< length txt], txt ! j = closer,
         s \<leftarrow> [take (j - i + 1) (drop i txt)], json_loads s \<noteq> None]"

section \<open>Ranking as the specification words it\<close>

text \<open>
  The score of a path as the specification describes it, for comparison with
  \<^const>\<open>file_score\<close>: the index of the first matching priority pattern decides the award,
  and three flat bonuses are added.
\<close>

definition first_match_index :: "string list \<Rightarrow> string \<Rightarrow> nat" where
  "first_match_index patterns path =
     length (takeWhile (\<lambda>pattern. \<not> contains (lower path) (lower pattern)) patterns)"

definition ranking_score :: "string list \<Rightarrow> string \<Rightarrow> int" where
  "ranking_score patterns path =
     (let i = first_match_index patterns path;
          filename = lower (basename path)
      in (if i < length patterns then (int (length patterns) - int i) * 10 else 0)
         + (if CHR ''/'' \<notin> set path then 5 else 0)
         + (if contains filename ''config'' \<or> contains filename ''setup'' then 3 else 0)
         + (if filename = ''readme.md'' \<or> filename = ''license'' \<or> filename = ''contributing.md''
            then 2 else 0))"

section \<open>Properties\<close>

subsection \<open>File filter\<close>

lemma filter_files_scenario:
  "filter_files (DEFAULT_CONFIG\<lparr>excluded_directories := [''node_modules'']\<rparr>)
     [''package.json'', ''src/index.js'', ''README.md'', ''node_modules/x.js'']
   = [''package.json'', ''src/index.js'', ''README.md'']"
  by code_simp

lemma filter_loop_is_filter:
  "filter_loop supported cfg fs = filter (\<lambda>p. filter_loop supported cfg [p] = [p]) fs"
  by (induction fs) (simp_all add: Let_def)

text \<open>
  Claim C8. The file filter is idempotent: for every list of paths, every excluded
  directory list, excluded extension list and supported extension table, filtering an
  already filtered list returns that list unchanged. This holds for the loop with any
  supported-extension table and so for \<^verbatim>\<open>_filter_files\<close> with the table of the source.
\<close>

theorem filter_files_idempotent:
  "filter_loop supported cfg (filter_loop supported cfg all_files)
     = filter_loop supported cfg all_files
   \<and> filter_files cfg (filter_files cfg all_files) = filter_files cfg all_files"
proof -
  have idem: "filter_loop s cfg (filter_loop s cfg fs) = filter_loop s cfg fs" for s fs
  proof -
    have "filter_loop s cfg (filter_loop s cfg fs)
          = filter (\<lambda>p. filter_loop s cfg [p] = [p]) (filter_loop s cfg fs)"
      by (rule filter_loop_is_filter)
    also have "\<dots> = filter (\<lambda>p. filter_loop s cfg [p] = [p])
                       (filter (\<lambda>p. filter_loop s cfg [p] = [p]) fs)"
      by (simp add: filter_loop_is_filter [of s cfg fs])
    also have "\<dots> = filter (\<lambda>p. filter_loop s cfg [p] = [p]) fs"
      by simp
    also have "\<dots> = filter_loop s cfg fs"
      by (rule filter_loop_is_filter [symmetric])
    finally show ?thesis .
  qed
  show ?thesis
    unfolding filter_files_def by (simp add: idem)
qed

subsection \<open>Heuristic ranking\<close>

lemma scan_patterns_first_match:
  "scan_patterns n i pats path =
     (let k = first_match_index pats path
      in if k < length pats then (int n - int (i + k)) * 10 else 0)"
  by (induction pats arbitrary: i) (simp_all add: first_match_index_def Let_def)

lemma count_list_zero_iff: "count_list xs x = 0 \<longleftrightarrow> x \<notin> set xs"
  by (induction xs) auto

lemma file_score_eq_ranking_score: "file_score patterns path = ranking_score patterns path"
  by (simp add: file_score_def ranking_score_def scan_patterns_first_match Let_def
      count_list_zero_iff)

lemma ranking_score_nonneg: "0 \<le> ranking_score patterns path"
proof -
  have "first_match_index patterns path \<le> length patterns"
    by (simp add: first_match_index_def length_takeWhile_le)
  then show ?thesis
    by (simp add: ranking_score_def Let_def)
qed

lemma scored_files_eq:
  "scored_files patterns paths =
     map (\<lambda>p. (p, ranking_score patterns p)) (filter (\<lambda>p. ranking_score patterns p \<noteq> 0) paths)"
proof (induction paths)
  case Nil
  show ?case by simp
next
  case (Cons p ps)
  have "0 < ranking_score patterns p \<longleftrightarrow> ranking_score patterns p \<noteq> 0"
    using ranking_score_nonneg [of patterns p] by linarith
  with Cons show ?case
    by (simp add: Let_def file_score_eq_ranking_score)
qed

lemma insort_key_map_pair:
  "insort_key (\<lambda>x. - snd x) (p, f p) (map (\<lambda>q. (q, f q)) ys)
     = map (\<lambda>q. (q, f q)) (insort_key (\<lambda>q. - f q) p ys)"
  by (induction ys) simp_all

lemma sort_by_score_reverse_map:
  "map fst (sort_by_score_reverse (map (\<lambda>p. (p, f p)) ps)) = sort_key (\<lambda>p. - f p) ps"
proof -
  have "sort_key (\<lambda>x. - snd x) (map (\<lambda>p. (p, f p)) ps)
        = map (\<lambda>p. (p, f p)) (sort_key (\<lambda>p. - f p) ps)"
    by (induction ps) (simp_all add: insort_key_map_pair)
  then show ?thesis
    by (simp add: sort_by_score_reverse_def comp_def)
qed


lemma sorted_desc_sort_key:
  "sorted_wrt (\<lambda>a b. f b \<le> f a) (sort_key (\<lambda>p. - f p) ps)" for f :: "'a \<Rightarrow> int"
proof -
  have "sorted (map (\<lambda>p. - f p) (sort_key (\<lambda>p. - f p) ps))"
    by (rule sorted_sort_key)
  then show ?thesis
    by (simp add: sorted_map)
qed

lemma heuristic_ranked:
  "heuristic_file_selection cfg paths =
     slice_to (sort_key (\<lambda>p. - ranking_score PRIORITY_PATTERNS p)
                 (filter (\<lambda>p. ranking_score PRIORITY_PATTERNS p \<noteq> 0) paths))
       (max_files_to_analyze cfg)"
  by (simp add: heuristic_file_selection_def scored_files_eq slice_to_def
      sort_by_score_reverse_map [symmetric] take_map)

lemma slice_to_nonneg: "0 \<le> b \<Longrightarrow> slice_to xs b = take (nat b) xs"
  by (simp add: slice_to_def slice_index_def min_def)

lemma slice_to_Nil: "slice_to [] b = []"
  by (simp add: slice_to_def)

lemma length_slice_to: "0 \<le> b \<Longrightarrow> int (length (slice_to xs b)) \<le> b"
  by (simp add: slice_to_def slice_index_def)

lemma set_slice_to: "set (slice_to xs b) \<subseteq> set xs"
  by (simp add: slice_to_def set_take_subset)

text \<open>
  Claim C6, as the code has it. For every path list and every limit, the score
  \<^verbatim>\<open>_heuristic_file_selection\<close> computes for a path is the one the specification
  describes: the first matching pattern of the ordered table awards
  (table length - index) * 10 and ends the scan, then +5 for a path without a slash, +3
  for a lowercase file name containing \<^verbatim>\<open>config\<close> or \<^verbatim>\<open>setup\<close>, +2 for a lowercase
  file name that is one of the three documentation and license names. The result is
  the prefix \<^verbatim>\<open>[:limit]\<close> of a list \<open>ranked\<close>, which is its first \<open>limit\<close> elements
  when \<open>limit\<close> is not negative; \<open>ranked\<close> is sorted by descending score and, for
  every score \<open>k\<close>, its paths of score \<open>k\<close> are exactly the input paths of score
  \<open>k\<close> in input order when \<open>k\<close> is not 0, and none when it is 0.
\<close>

theorem heuristic_ranking:
  "\<exists>ranked.
     heuristic_file_selection cfg paths = slice_to ranked (max_files_to_analyze cfg)
     \<and> (0 \<le> max_files_to_analyze cfg \<longrightarrow>
          heuristic_file_selection cfg paths = take (nat (max_files_to_analyze cfg)) ranked)
     \<and> sorted_wrt (\<lambda>a b. ranking_score PRIORITY_PATTERNS b \<le> ranking_score PRIORITY_PATTERNS a)
          ranked
     \<and> (\<forall>k. filter (\<lambda>p. ranking_score PRIORITY_PATTERNS p = k) ranked
            = filter (\<lambda>p. ranking_score PRIORITY_PATTERNS p = k \<and> k \<noteq> 0) paths)
     \<and> (\<forall>p. file_score PRIORITY_PATTERNS p = ranking_score PRIORITY_PATTERNS p)"
proof -
  let ?f = "ranking_score PRIORITY_PATTERNS"
  let ?ranked = "sort_key (\<lambda>p. - ?f p) (filter (\<lambda>p. ?f p \<noteq> 0) paths)"
  have a: "heuristic_file_selection cfg paths = slice_to ?ranked (max_files_to_analyze cfg)"
    by (rule heuristic_ranked)
  have b: "0 \<le> max_files_to_analyze cfg \<longrightarrow>
           heuristic_file_selection cfg paths = take (nat (max_files_to_analyze cfg)) ?ranked"
    using a by (simp add: slice_to_nonneg)
  have c: "sorted_wrt (\<lambda>a b. ?f b \<le> ?f a) ?ranked"
    by (rule sorted_desc_sort_key)
  have d: "filter (\<lambda>p. ?f p = k) ?ranked = filter (\<lambda>p. ?f p = k \<and> k \<noteq> 0) paths" for k
  proof -
    have "filter (\<lambda>p. - ?f p = - k) ?ranked
          = filter (\<lambda>p. - ?f p = - k) (filter (\<lambda>p. ?f p \<noteq> 0) paths)"
      by (rule sort_key_stable)
    also have "\<dots> = filter (\<lambda>p. ?f p = k \<and> k \<noteq> 0) paths"
      by (auto intro: filter_cong)
    finally show ?thesis by simp
  qed
  have e: "\<forall>p. file_score PRIORITY_PATTERNS p = ?f p"
    by (simp add: file_score_eq_ranking_score)
  from a b c d e show ?thesis by blast
qed

theorem heuristic_ranking_witness:
  "0 \<le> max_files_to_analyze DEFAULT_CONFIG
   \<and> (\<exists>ranked. heuristic_file_selection DEFAULT_CONFIG [''src/app.py'', ''README.md'']
                   = take (nat (max_files_to_analyze DEFAULT_CONFIG)) ranked
        \<and> sorted_wrt (\<lambda>a b. ranking_score PRIORITY_PATTERNS b \<le> ranking_score PRIORITY_PATTERNS a)
             ranked)"
proof -
  have h: "0 \<le> max_files_to_analyze DEFAULT_CONFIG"
    by (simp add: DEFAULT_CONFIG_def)
  from heuristic_ranking [of DEFAULT_CONFIG "[''src/app.py'', ''README.md'']"] h
  show ?thesis by blast
qed

text \<open>
  With the limit \<open>-1\<close> the slice \<^verbatim>\<open>[:-1]\<close> drops only the last ranked path: of two
  scored paths one is returned, which is not the top \<open>-1\<close> paths.
\<close>

theorem heuristic_limit_counterexample:
  "\<not> int (length (heuristic_file_selection (DEFAULT_CONFIG\<lparr>max_files_to_analyze := - 1\<rparr>)
                     [''package.json'', ''README.md'']))
       \<le> max_files_to_analyze (DEFAULT_CONFIG\<lparr>max_files_to_analyze := - 1\<rparr>)"
  by code_simp

subsection \<open>File selection\<close>

lemma set_valid_selected: "set (valid_selected all_files items) \<subseteq> set all_files"
  by (auto simp: valid_selected_def split: json.splits option.splits if_splits)

lemma set_heuristic: "set (heuristic_file_selection cfg paths) \<subseteq> set paths"
proof -
  have "set (heuristic_file_selection cfg paths)
        \<subseteq> set (sort_key (\<lambda>p. - ranking_score PRIORITY_PATTERNS p)
                 (filter (\<lambda>p. ranking_score PRIORITY_PATTERNS p \<noteq> 0) paths))"
    unfolding heuristic_ranked by (rule set_slice_to)
  then show ?thesis by auto
qed

lemma length_heuristic:
  "0 \<le> max_files_to_analyze cfg \<Longrightarrow>
   int (length (heuristic_file_selection cfg paths)) \<le> max_files_to_analyze cfg"
  unfolding heuristic_ranked by (rule length_slice_to)

lemma ai_select_try_cases:
  "ai_select_try model cfg ai all_files = heuristic_file_selection cfg all_files
   \<or> (\<exists>items. valid_selected all_files items \<noteq> []
        \<and> ai_select_try model cfg ai all_files
            = slice_to (valid_selected all_files items) (max_files_to_analyze cfg))"
  by (auto simp: ai_select_try_def Let_def split: sum.splits option.splits)

lemma set_ai_select_try: "set (ai_select_try model cfg ai all_files) \<subseteq> set all_files"
  using ai_select_try_cases [of model cfg ai all_files] set_heuristic [of cfg all_files]
    set_slice_to set_valid_selected
  by (metis subset_trans)

lemma length_ai_select_try:
  assumes "0 \<le> max_files_to_analyze cfg"
  shows "int (length (ai_select_try model cfg ai all_files)) \<le> max_files_to_analyze cfg"
  using ai_select_try_cases [of model cfg ai all_files] length_heuristic [OF assms, of all_files]
    length_slice_to [OF assms]
  by metis

lemma ai_select_returns:
  "ai_select_files_to_analyze model cfg ai all_files repo_info = Inr selected \<Longrightarrow>
   selected = ai_select_try model cfg ai all_files"
  by (auto simp: ai_select_files_to_analyze_def split: sum.splits)

lemma ai_select_scenario:
  "ai_select_files_to_analyze ''gpt-4'' DEFAULT_CONFIG
     (\<lambda>_. Choices [Some ''Sure! [\"package.json\", \"missing.txt\"]''])
     [''package.json'', ''src/index.js''] (JObj [])
   = Inr [''package.json'']"
  by code_simp

text \<open>
  Claim C3, as the code has it. For every file list, answer of the model, repository
  metadata and configuration, every path of a selection the selector returns is a
  member of the input file list, on the AI path and on the heuristic path alike; and
  when \<^verbatim>\<open>max_files_to_analyze\<close> is not negative, the selection has at most that many
  elements. (A negative value is cut as the Python slice \<^verbatim>\<open>[:n]\<close> cuts: it drops the
  last \<open>-n\<close> elements.) The same holds of the \<^verbatim>\<open>try\<close> statement with its fallback
  and of the heuristic selection taken alone.
\<close>

theorem selection_bounded:
  "(\<forall>selected.
      ai_select_files_to_analyze model cfg ai all_files repo_info = Inr selected \<longrightarrow>
        set selected \<subseteq> set all_files
        \<and> (0 \<le> max_files_to_analyze cfg \<longrightarrow>
             int (length selected) \<le> max_files_to_analyze cfg))
   \<and> set (ai_select_try model cfg ai all_files) \<subseteq> set all_files
   \<and> set (heuristic_file_selection cfg all_files) \<subseteq> set all_files
   \<and> (0 \<le> max_files_to_analyze cfg \<longrightarrow>
        int (length (ai_select_try model cfg ai all_files)) \<le> max_files_to_analyze cfg
        \<and> int (length (heuristic_file_selection cfg all_files)) \<le> max_files_to_analyze cfg)"
  using ai_select_returns [of model cfg ai all_files repo_info]
    set_ai_select_try [of model cfg ai all_files]
    length_ai_select_try [of cfg model ai all_files]
    set_heuristic [of cfg all_files] length_heuristic [of cfg all_files]
  by blast

theorem selection_bounded_witness:
  "0 \<le> max_files_to_analyze DEFAULT_CONFIG
   \<and> ai_select_files_to_analyze ''gpt-4'' DEFAULT_CONFIG
        (\<lambda>_. Choices [Some ''Sure! [\"package.json\", \"missing.txt\"]''])
        [''package.json'', ''src/index.js''] (JObj [])
       = Inr [''package.json'']
   \<and> set [''package.json''] \<subseteq> set [''package.json'', ''src/index.js'']
   \<and> int (length [''package.json'']) \<le> max_files_to_analyze DEFAULT_CONFIG"
proof -
  have h: "0 \<le> max_files_to_analyze DEFAULT_CONFIG"
    by (simp add: DEFAULT_CONFIG_def)
  have r: "ai_select_files_to_analyze ''gpt-4'' DEFAULT_CONFIG
        (\<lambda>_. Choices [Some ''Sure! [\"package.json\", \"missing.txt\"]''])
        [''package.json'', ''src/index.js''] (JObj [])
       = Inr [''package.json'']"
    by (rule ai_select_scenario)
  from selection_bounded [of "''gpt-4''" DEFAULT_CONFIG
      "\<lambda>_. Choices [Some ''Sure! [\"package.json\", \"missing.txt\"]'']"
      "[''package.json'', ''src/index.js'']" "JObj []"] h r
  show ?thesis by blast
qed

text \<open>
  With \<^verbatim>\<open>max_files_to_analyze = -1\<close> and an answer naming two files of the list, the
  selection has one element, which is more than the configured value.
\<close>

theorem selection_length_counterexample:
  "ai_select_files_to_analyze ''gpt-4''
     (DEFAULT_CONFIG\<lparr>max_files_to_analyze := - 1\<rparr>)
     (\<lambda>_. Choices [Some ''[\"a.py\", \"b.py\"]''])
     [''a.py'', ''b.py''] (JObj [])
   = Inr [''a.py'']
   \<and> \<not> int (length [''a.py''])
         \<le> max_files_to_analyze (DEFAULT_CONFIG\<lparr>max_files_to_analyze := - 1\<rparr>)"
  by code_simp

lemma first_match_index_none:
  "\<forall>pattern \<in> set patterns. \<not> contains (lower path) (lower pattern) \<Longrightarrow>
   first_match_index patterns path = length patterns"
  by (induction patterns) (simp_all add: first_match_index_def)

text \<open>
  Claim C10. When every path of the list scores 0 (it contains no priority pattern, it
  has a directory component, its lowercase file name contains neither \<^verbatim>\<open>config\<close> nor
  \<^verbatim>\<open>setup\<close> and is none of the documentation and license names), the heuristic
  selection returns the empty list, and so does the AI file selector whenever the call
  of the model raises (its prompt having been built), whatever the length of its input
  list.
\<close>

theorem heuristic_empty_when_all_zero:
  assumes "\<forall>p \<in> set paths.
             (\<forall>pattern \<in> set PRIORITY_PATTERNS. \<not> contains (lower p) (lower pattern))
             \<and> CHR ''/'' \<in> set p
             \<and> \<not> contains (lower (basename p)) ''config''
             \<and> \<not> contains (lower (basename p)) ''setup''
             \<and> lower (basename p) \<notin> {''readme.md'', ''license'', ''contributing.md''}"
  shows "heuristic_file_selection cfg paths = []
         \<and> (\<forall>e. fst (call_ai_model model ai) = Inl e \<longrightarrow>
               ai_select_try model cfg ai paths = [])
         \<and> (\<forall>e topics_str.
               fst (call_ai_model model ai) = Inl e
               \<and> prompt_topics ''None specified'' repo_info = Inr topics_str \<longrightarrow>
               ai_select_files_to_analyze model cfg ai paths repo_info = Inr [])"
proof -
  have zero: "ranking_score PRIORITY_PATTERNS p = 0" if "p \<in> set paths" for p
    using assms that
    by (simp add: ranking_score_def Let_def first_match_index_none)
  then have "filter (\<lambda>p. ranking_score PRIORITY_PATTERNS p \<noteq> 0) paths = []"
    by (simp add: filter_empty_conv)
  then have h: "heuristic_file_selection cfg paths = []"
    by (simp add: heuristic_ranked slice_to_Nil)
  then show ?thesis
    by (simp add: ai_select_files_to_analyze_def ai_select_try_def)
qed

theorem heuristic_empty_when_all_zero_witness:
  "heuristic_file_selection DEFAULT_CONFIG [''src/main.py''] = []
   \<and> ai_select_files_to_analyze ''gpt-4'' DEFAULT_CONFIG (\<lambda>_. Raises ''timeout'')
        [''src/main.py''] (JObj []) = Inr []
   \<and> [''src/main.py''] \<noteq> []"
proof -
  have a: "\<forall>p \<in> set [''src/main.py''].
             (\<forall>pattern \<in> set PRIORITY_PATTERNS. \<not> contains (lower p) (lower pattern))
             \<and> CHR ''/'' \<in> set p
             \<and> \<not> contains (lower (basename p)) ''config''
             \<and> \<not> contains (lower (basename p)) ''setup''
             \<and> lower (basename p) \<notin> {''readme.md'', ''license'', ''contributing.md''}"
    by code_simp
  have b: "fst (call_ai_model ''gpt-4'' (\<lambda>_. Raises ''timeout''))
           = Inl (AIModelError ''AI model gpt-4 failed after 3 attempts: timeout'')"
    by code_simp
  have c: "prompt_topics ''None specified'' (JObj []) = Inr (ustr ''None specified'')"
    by (simp add: prompt_topics_def dict_get_def JObj_def)
  from heuristic_empty_when_all_zero [OF a, of DEFAULT_CONFIG "''gpt-4''"
      "\<lambda>_. Raises ''timeout''" "JObj []"] b c
  show ?thesis by simp
qed

subsection \<open>AI client\<close>

text \<open>
  Claim C5, as the code has it. When an attempt of the AI call raises an error whose
  lowercase text contains one of the four markers of the source, \<^verbatim>\<open>authentication\<close>,
  \<^verbatim>\<open>api_key\<close>, \<^verbatim>\<open>unauthorized\<close>, \<^verbatim>\<open>forbidden\<close>, the client performs that call and
  nothing after it (no further call and no sleep) and raises the authentication error,
  whose message differs from the one raised when the attempts are exhausted. In
  particular, when the first attempt raises such an error, the client makes exactly
  one call.
\<close>

theorem auth_error_single_attempt:
  assumes "ai attempt = Raises e" and "is_auth_error e"
  shows "ai_attempts model ai attempt (Suc remaining)
           = (Inl (AIModelError (''Authentication failed for '' @ model @ '': '' @ e)),
              [Call attempt])
         \<and> (attempt = 0 \<longrightarrow>
              call_ai_model model ai
                = (Inl (AIModelError (''Authentication failed for '' @ model @ '': '' @ e)),
                   [Call 0]))
         \<and> AIModelError (''Authentication failed for '' @ model @ '': '' @ e)
             \<noteq> AIModelError (''AI model '' @ model_name_of model @ '' failed after ''
                   @ str_nat AI_MAX_RETRIES @ '' attempts: '' @ e')"
  using assms
  by (auto simp: call_ai_model_def AI_MAX_RETRIES_def attempt_result_def numeral_3_eq_3)

theorem auth_error_single_attempt_witness:
  "call_ai_model ''gpt-4'' (\<lambda>_. Raises ''Error code: 401 - Unauthorized'')
     = (Inl (AIModelError ''Authentication failed for gpt-4: Error code: 401 - Unauthorized''),
        [Call 0])"
proof -
  have a: "(\<lambda>_::nat. Raises ''Error code: 401 - Unauthorized'') 0 = Raises ''Error code: 401 - Unauthorized''"
    by simp
  have b: "is_auth_error ''Error code: 401 - Unauthorized''"
    by code_simp
  from auth_error_single_attempt [OF a b, of "''gpt-4''" 0] show ?thesis by simp
qed

text \<open>
  The word \<^verbatim>\<open>authorization\<close> is not among the markers: an error with the text
  \<^verbatim>\<open>401 Authorization Required\<close> is retried until the three attempts are used, with
  sleeps of 2 and 4 seconds, and ends in the error of exhausted attempts.
\<close>

theorem auth_marker_counterexample:
  "contains (lower ''401 Authorization Required'') ''authorization''
   \<and> call_ai_model ''gpt-4'' (\<lambda>_. Raises ''401 Authorization Required'')
       = (Inl (AIModelError
                 ''AI model gpt-4 failed after 3 attempts: 401 Authorization Required''),
          [Call 0, Sleep 2, Call 1, Sleep 4, Call 2])"
  by code_simp

subsection \<open>Content fetcher\<close>

lemma content_length_update:
  "content_length (AList.update k v fc) \<le> content_length fc + int (length v)"
  by (induction fc) (auto simp: content_length_def)

lemma update_mem: "(k, v) \<in> set (AList.update k v fc)"
  by (induction fc) auto

lemma stored_length:
  "0 \<le> max_file_size cfg \<Longrightarrow> fetch_one cfg out = Stored t \<Longrightarrow>
   int (length t) \<le> max_file_size cfg + int (length truncation_marker)"
  by (auto simp: fetch_one_def Let_def slice_to_def slice_index_def
      split: http_outcome.splits content_body.splits decoded.splits if_splits)

lemma fetch_loop_stops:
  "budget \<le> acc \<Longrightarrow> fetch_loop budget cfg reqs fc acc = (fc, acc)"
  by (cases reqs) auto

lemma fetch_loop_counter_bound:
  "0 \<le> max_file_size cfg \<Longrightarrow>
   acc < budget + max_file_size cfg + int (length truncation_marker) \<Longrightarrow>
   snd (fetch_loop budget cfg reqs fc acc)
     < budget + max_file_size cfg + int (length truncation_marker)"
proof (induction reqs arbitrary: fc acc)
  case Nil
  then show ?case by simp
next
  case (Cons req rest)
  obtain file_path out where req: "req = (file_path, out)"
    by (cases req)
  show ?case
  proof (cases "budget \<le> acc")
    case True
    with Cons.prems req show ?thesis by simp
  next
    case False
    show ?thesis
    proof (cases "fetch_one cfg out")
      case Break
      with False Cons.prems req show ?thesis by simp
    next
      case Continue
      with False Cons req show ?thesis by simp
    next
      case (Stored t)
      from stored_length [OF Cons.prems(1) Stored] False
      have "acc + int (length t) < budget + max_file_size cfg + int (length truncation_marker)"
        by linarith
      from Cons.IH [OF Cons.prems(1) this] False Stored req show ?thesis
        by simp
    qed
  qed
qed

lemma fetch_loop_content_le_counter:
  "content_length fc \<le> acc \<Longrightarrow>
   content_length (fst (fetch_loop budget cfg reqs fc acc)) \<le> snd (fetch_loop budget cfg reqs fc acc)"
proof (induction reqs arbitrary: fc acc)
  case Nil
  then show ?case by simp
next
  case (Cons req rest)
  obtain file_path out where req: "req = (file_path, out)"
    by (cases req)
  show ?case
  proof (cases "fetch_one cfg out")
    case (Stored t)
    have "content_length (AList.update file_path t fc) \<le> acc + int (length t)"
      using content_length_update [of file_path t fc] Cons.prems by linarith
    from Cons.IH [OF this] Cons.prems Stored req show ?thesis
      by simp
  next
    case Break
    with Cons.prems req show ?thesis by simp
  next
    case Continue
    with Cons req show ?thesis by simp
  qed
qed

lemma fetch_loop_all_but_one:
  "content_length fc \<le> acc \<Longrightarrow> all_but_one_below budget fc \<Longrightarrow>
   all_but_one_below budget (fst (fetch_loop budget cfg reqs fc acc))"
proof (induction reqs arbitrary: fc acc)
  case Nil
  then show ?case by simp
next
  case (Cons req rest)
  obtain file_path out where req: "req = (file_path, out)"
    by (cases req)
  show ?case
  proof (cases "budget \<le> acc")
    case True
    with Cons.prems req show ?thesis by simp
  next
    case False
    show ?thesis
    proof (cases "fetch_one cfg out")
      case Break
      with False Cons.prems req show ?thesis by simp
    next
      case Continue
      with False Cons req show ?thesis by simp
    next
      case (Stored t)
      have le: "content_length (AList.update file_path t fc) \<le> acc + int (length t)"
        using content_length_update [of file_path t fc] Cons.prems(1) by linarith
      with False have "content_length (AList.update file_path t fc) < budget + int (length t)"
        by linarith
      then have "all_but_one_below budget (AList.update file_path t fc)"
        unfolding all_but_one_below_def using update_mem [of file_path t fc] by force
      from Cons.IH [OF le this] False Stored req show ?thesis
        by simp
    qed
  qed
qed

lemma update_entries:
  "kv \<in> set (AList.update k v fc) \<Longrightarrow> kv = (k, v) \<or> kv \<in> set fc"
  by (induction fc) (auto split: if_splits)

lemma fetch_loop_entries:
  "0 \<le> max_file_size cfg \<Longrightarrow>
   \<forall>kv \<in> set fc. int (length (snd kv)) \<le> max_file_size cfg + int (length truncation_marker) \<Longrightarrow>
   \<forall>kv \<in> set (fst (fetch_loop budget cfg reqs fc acc)).
      int (length (snd kv)) \<le> max_file_size cfg + int (length truncation_marker)"
proof (induction reqs arbitrary: fc acc)
  case Nil
  then show ?case by simp
next
  case (Cons req rest)
  obtain file_path out where req: "req = (file_path, out)"
    by (cases req)
  show ?case
  proof (cases "fetch_one cfg out")
    case (Stored t)
    have "\<forall>kv \<in> set (AList.update file_path t fc).
            int (length (snd kv)) \<le> max_file_size cfg + int (length truncation_marker)"
      using stored_length [OF Cons.prems(1) Stored] Cons.prems(2) update_entries [of _ file_path t fc]
      by fastforce
    from Cons.IH [OF Cons.prems(1) this] Cons.prems Stored req show ?thesis
      by simp
  next
    case Break
    with Cons.prems req show ?thesis by simp
  next
    case Continue
    with Cons req show ?thesis by simp
  qed
qed

text \<open>
  Claim C1, as the code has it. The budget is tested before each fetch: once the
  accumulated length has reached the budget the loop stops and the remaining files are
  not fetched. The file that reaches or crosses the budget is stored whole, so in the
  returned map all entries but one stay below the budget together (the map is empty, or
  it has an entry without which the combined length is below the budget). With a budget
  of 100 characters and three requested files of 60 characters each, the first two
  files are fetched, for 120 characters, and the third is skipped.
\<close>

theorem content_budget_stops:
  "(budget \<le> acc \<longrightarrow> fetch_loop budget cfg reqs fc acc = (fc, acc))
   \<and> all_but_one_below budget (fst (fetch_loop budget cfg reqs [] 0))
   \<and> all_but_one_below MAX_TOTAL_CONTENT_SIZE (fetch_file_contents cfg reqs)
   \<and> fetch_loop 100 DEFAULT_CONFIG
        [(''a.txt'', text_response (replicate 60 CHR ''x'')),
         (''b.txt'', text_response (replicate 60 CHR ''y'')),
         (''c.txt'', text_response (replicate 60 CHR ''z''))] [] 0
       = ([(''a.txt'', replicate 60 CHR ''x''), (''b.txt'', replicate 60 CHR ''y'')], 120)"
proof -
  have a: "budget \<le> acc \<longrightarrow> fetch_loop budget cfg reqs fc acc = (fc, acc)"
    by (simp add: fetch_loop_stops)
  have b: "all_but_one_below m (fst (fetch_loop m cfg reqs [] 0))" for m
    by (rule fetch_loop_all_but_one) (simp_all add: content_length_def all_but_one_below_def)
  have c: "fetch_loop 100 DEFAULT_CONFIG
        [(''a.txt'', text_response (replicate 60 CHR ''x'')),
         (''b.txt'', text_response (replicate 60 CHR ''y'')),
         (''c.txt'', text_response (replicate 60 CHR ''z''))] [] 0
       = ([(''a.txt'', replicate 60 CHR ''x''), (''b.txt'', replicate 60 CHR ''y'')], 120)"
    by (simp add: text_response_def DEFAULT_CONFIG_def
      fetch_one_def is_rate_limited_def raises_for_status_def lower_def Let_def)
  from a b [of budget] b [of MAX_TOTAL_CONTENT_SIZE] c show ?thesis
    unfolding fetch_file_contents_def by blast
qed

theorem content_budget_stops_witness:
  "(100::int) \<le> 120
   \<and> fetch_loop 100 DEFAULT_CONFIG
        [(''c.txt'', text_response (replicate 60 CHR ''z''))]
        [(''a.txt'', replicate 60 CHR ''x''), (''b.txt'', replicate 60 CHR ''y'')] 120
      = ([(''a.txt'', replicate 60 CHR ''x''), (''b.txt'', replicate 60 CHR ''y'')], 120)"
  using content_budget_stops [of 100 120 DEFAULT_CONFIG
      "[(''c.txt'', text_response (replicate 60 CHR ''z''))]"
      "[(''a.txt'', replicate 60 CHR ''x''), (''b.txt'', replicate 60 CHR ''y'')]"]
  by simp

text \<open>
  With \<^verbatim>\<open>max_file_size = 50000\<close> and three files of 40000 characters the returned map
  holds 120000 characters, more than \<^const>\<open>MAX_TOTAL_CONTENT_SIZE\<close>; and in the scenario
  of three files of 60 characters under a budget of 100 the fetched paths are not the
  first one alone.
\<close>

theorem content_budget_counterexample:
  "\<not> content_length
        (fetch_file_contents (DEFAULT_CONFIG\<lparr>max_file_size := 50000\<rparr>)
           [(''a.txt'', text_response (replicate 40000 CHR ''x'')),
            (''b.txt'', text_response (replicate 40000 CHR ''y'')),
            (''c.txt'', text_response (replicate 40000 CHR ''z''))])
      \<le> MAX_TOTAL_CONTENT_SIZE
   \<and> map fst (fst (fetch_loop 100 DEFAULT_CONFIG
        [(''a.txt'', text_response (replicate 60 CHR ''x'')),
         (''b.txt'', text_response (replicate 60 CHR ''y'')),
         (''c.txt'', text_response (replicate 60 CHR ''z''))] [] 0))
      \<noteq> [''a.txt'']"
  by (simp add: fetch_file_contents_def MAX_TOTAL_CONTENT_SIZE_def text_response_def
      DEFAULT_CONFIG_def
      fetch_one_def is_rate_limited_def raises_for_status_def lower_def
      content_length_def Let_def)

text \<open>
  Claim C9, as the code has it. For every configuration with \<^verbatim>\<open>max_file_size\<close> not
  negative and every list of requests, the combined length of the returned map is
  strictly below \<^const>\<open>MAX_TOTAL_CONTENT_SIZE\<close> plus \<^verbatim>\<open>max_file_size\<close> plus the length
  of the truncation marker, which is 16, and every stored entry has at most
  \<^verbatim>\<open>max_file_size\<close> plus 16 characters.
\<close>

theorem content_total_bound:
  assumes "0 \<le> max_file_size cfg"
  shows "content_length (fetch_file_contents cfg reqs)
           < MAX_TOTAL_CONTENT_SIZE + max_file_size cfg + int (length truncation_marker)
         \<and> (\<forall>kv \<in> set (fetch_file_contents cfg reqs).
               int (length (snd kv)) \<le> max_file_size cfg + int (length truncation_marker))
         \<and> length truncation_marker = 16"
proof -
  have "(0::int) < MAX_TOTAL_CONTENT_SIZE + max_file_size cfg + int (length truncation_marker)"
    using assms by (simp add: MAX_TOTAL_CONTENT_SIZE_def)
  from fetch_loop_counter_bound [OF assms this]
  have "snd (fetch_loop MAX_TOTAL_CONTENT_SIZE cfg reqs [] 0)
          < MAX_TOTAL_CONTENT_SIZE + max_file_size cfg + int (length truncation_marker)" .
  moreover have "content_length (fst (fetch_loop MAX_TOTAL_CONTENT_SIZE cfg reqs [] 0))
          \<le> snd (fetch_loop MAX_TOTAL_CONTENT_SIZE cfg reqs [] 0)"
    by (rule fetch_loop_content_le_counter) (simp add: content_length_def)
  ultimately have a: "content_length (fetch_file_contents cfg reqs)
           < MAX_TOTAL_CONTENT_SIZE + max_file_size cfg + int (length truncation_marker)"
    unfolding fetch_file_contents_def by linarith
  have b: "\<forall>kv \<in> set (fetch_file_contents cfg reqs).
               int (length (snd kv)) \<le> max_file_size cfg + int (length truncation_marker)"
    unfolding fetch_file_contents_def by (rule fetch_loop_entries [OF assms]) simp
  have c: "length truncation_marker = 16"
    by (simp add: truncation_marker_def)
  from a b c show ?thesis by blast
qed

theorem content_total_bound_witness:
  "0 \<le> max_file_size DEFAULT_CONFIG
   \<and> content_length
        (fetch_file_contents DEFAULT_CONFIG
           [(''a.txt'', text_response (replicate 60000 CHR ''x'')),
            (''b.txt'', text_response (replicate 60000 CHR ''y''))])
      < MAX_TOTAL_CONTENT_SIZE + max_file_size DEFAULT_CONFIG + 16"
proof -
  have h: "0 \<le> max_file_size DEFAULT_CONFIG"
    by (simp add: DEFAULT_CONFIG_def)
  from content_total_bound [OF h,
      of "[(''a.txt'', text_response (replicate 60000 CHR ''x'')),
           (''b.txt'', text_response (replicate 60000 CHR ''y''))]"] h
  show ?thesis by simp
qed

text \<open>
  With \<^verbatim>\<open>max_file_size = -1\<close> the slice \<^verbatim>\<open>[:-1]\<close> drops one character only: two files
  of 60000 characters give a map of 120030 characters, above the bound of 100015.
\<close>

theorem content_total_bound_counterexample:
  "\<not> content_length
        (fetch_file_contents (DEFAULT_CONFIG\<lparr>max_file_size := - 1\<rparr>)
           [(''a.txt'', text_response (replicate 60000 CHR ''x'')),
            (''b.txt'', text_response (replicate 60000 CHR ''y''))])
      < MAX_TOTAL_CONTENT_SIZE + max_file_size (DEFAULT_CONFIG\<lparr>max_file_size := - 1\<rparr>)
        + int (length truncation_marker)"
  by (simp add: fetch_file_contents_def MAX_TOTAL_CONTENT_SIZE_def text_response_def
      fetch_one_def is_rate_limited_def raises_for_status_def lower_def truncation_marker_def
      slice_to_def slice_index_def content_length_def Let_def)

subsection \<open>Structure analysis\<close>

lemma ustr_eq_iff: "ustr a = ustr b \<longleftrightarrow> a = b"
proof -
  have "inj (of_char :: char \<Rightarrow> nat)"
    by (rule injI) simp
  then show ?thesis
    unfolding ustr_def by (rule inj_map_eq_map)
qed

lemma map_of_ustr_keys:
  "map_of (map (\<lambda>kv. (ustr (fst kv), snd kv)) al) (ustr key) = map_of al key"
  by (induction al) (simp_all add: ustr_eq_iff)

lemma lookup_JObj: "lookup (JObj al) key = map_of al key"
  by (simp add: lookup_def JObj_def map_of_ustr_keys)

lemma prompt_topics_object:
  "prompt_topics none_text repo_info = Inr t \<Longrightarrow> \<exists>al. repo_info = JObject al"
  by (auto simp: prompt_topics_def dict_get_def split: json.splits)

lemma heuristic_complete:
  "\<exists>h. heuristic_structure_analysis set_order all_files (JObject al) = Inr h
       \<and> complete_shape h \<and> full_shape h \<and> fallback_marked h"
proof -
  obtain v where v: "dict_get (JObject al) ''language'' (JStr ''Unknown'') = Inr v"
    by (cases "map_of al (ustr ''language'')") (simp_all add: dict_get_def)
  show ?thesis
    by (simp add: heuristic_structure_analysis_def v complete_shape_def full_shape_def
        fallback_marked_def STRUCTURE_SCHEMA_def has_keys_def lookup_JObj Let_def)
qed

lemma str_find_hit:
  "str_find s ch \<noteq> - 1 \<Longrightarrow>
   0 \<le> str_find s ch \<and> nat (str_find s ch) < length s \<and> s ! nat (str_find s ch) = ch"
proof (induction s)
  case Nil
  then show ?case by simp
next
  case (Cons c cs)
  show ?case
  proof (cases "c = ch")
    case True
    then show ?thesis by simp
  next
    case False
    with Cons.prems have ne: "str_find cs ch \<noteq> - 1"
      by (auto simp: Let_def)
    from Cons.IH [OF ne] False ne show ?thesis
      by (simp add: Let_def nat_add_distrib)
  qed
qed

lemma json_span_head:
  assumes "json_span opener closer r = Some s"
  shows "s = [] \<or> hd s = opener"
proof -
  let ?i = "str_find r opener"
  from assms have ne: "?i \<noteq> - 1"
    by (auto simp: json_span_def Let_def split: if_splits)
  from str_find_hit [OF ne] have i: "0 \<le> ?i" "nat ?i < length r" "r ! nat ?i = opener"
    by auto
  from assms ne have s: "s = slice r ?i (str_rfind r closer + 1)"
    by (auto simp: json_span_def Let_def split: if_splits)
  show ?thesis
  proof (cases "s = []")
    case True
    then show ?thesis by simp
  next
    case False
    let ?b = "slice_index (length r) (str_rfind r closer + 1)"
    from i have a: "slice_index (length r) ?i = nat ?i"
      by (simp add: slice_index_def)
    from s a have s': "s = drop (nat ?i) (take ?b r)"
      by (simp add: slice_def)
    with False have lt: "nat ?i < ?b"
      by (auto simp: slice_index_def split: if_splits)
    from lt i have "nat ?i < length (take ?b r)"
      by simp
    then have "hd (drop (nat ?i) (take ?b r)) = take ?b r ! nat ?i"
      by (rule hd_drop_conv_nth)
    with s' have "hd s = take ?b r ! nat ?i"
      by simp
    also from lt have "\<dots> = r ! nat ?i"
      by simp
    finally show ?thesis using i by simp
  qed
qed

lemma json_loads_brace_object:
  assumes "json_loads (CHR ''{'' # cs) = Some v"
  shows "\<exists>al. v = JObject al"
proof -
  have ws: "skip_ws (CHR ''{'' # cs) = CHR ''{'' # cs"
    by (simp add: skip_ws_def is_ws_def)
  obtain n where n: "2 * length (CHR ''{'' # cs) + 2 = Suc n"
    by simp
  from assms obtain r where "scan_once (Suc n) (CHR ''{'' # cs) = Some (v, r)"
    unfolding json_loads_def ws n by (auto split: option.splits if_splits)
  then show ?thesis
    by (auto split: list.splits if_splits option.splits)
qed

lemma span_loads_object:
  assumes "json_span CHR ''{'' closer r = Some s" and "json_loads s = Some v"
  shows "\<exists>al. v = JObject al"
proof -
  from assms(2) have "s \<noteq> []"
    by (auto simp: json_loads_def skip_ws_def)
  with json_span_head [OF assms(1)] obtain cs where "s = CHR ''{'' # cs"
    by (cases s) auto
  with assms(2) show ?thesis
    using json_loads_brace_object by blast
qed

lemma ai_analyze_try_parsed:
  assumes "fst (call_ai_model model ai) = Inr (Some ai_response)"
    and "json_span CHR ''{'' CHR ''}'' ai_response = Some json_str"
    and "json_loads json_str = Some v"
  shows "ai_analyze_try model set_order ai all_files repo_info = Inr v"
  using assms by (simp add: ai_analyze_try_def)

lemma ai_analyze_try_fallback:
  assumes "\<not> (\<exists>ai_response json_str v.
                fst (call_ai_model model ai) = Inr (Some ai_response)
                \<and> json_span CHR ''{'' CHR ''}'' ai_response = Some json_str
                \<and> json_loads json_str = Some v)"
  shows "ai_analyze_try model set_order ai all_files repo_info
           = heuristic_structure_analysis set_order all_files repo_info"
  using assms by (auto simp: ai_analyze_try_def split: sum.splits option.splits)

text \<open>
  Claim C2, as the code has it. Whenever the structure prompt is built (the metadata is
  a \<^verbatim>\<open>dict\<close> whose topics can be joined), the structure analysis returns a value,
  decided by the AI response alone: when the call of the model returns a text whose
  span from the first opening to the last closing brace parses, the result is the
  parsed JSON object itself, whatever fields it has or lacks; in every other case the
  result is the heuristic fallback. The fallback has all nine fields, each with all its
  subfields (none omitted), and carries the marker \<^verbatim>\<open>fallback_analysis\<close> set to true.
\<close>

theorem structure_analysis_result:
  assumes "prompt_topics ''None'' repo_info = Inr topics_str"
  shows
    "(\<forall>ai_response json_str v.
        fst (call_ai_model model ai) = Inr (Some ai_response)
        \<and> json_span CHR ''{'' CHR ''}'' ai_response = Some json_str
        \<and> json_loads json_str = Some v \<longrightarrow>
        ai_analyze_repo_structure model set_order ai all_files repo_info = Inr v
        \<and> (\<exists>al. v = JObject al))
     \<and> (\<not> (\<exists>ai_response json_str v.
              fst (call_ai_model model ai) = Inr (Some ai_response)
              \<and> json_span CHR ''{'' CHR ''}'' ai_response = Some json_str
              \<and> json_loads json_str = Some v) \<longrightarrow>
         ai_analyze_repo_structure model set_order ai all_files repo_info
           = heuristic_structure_analysis set_order all_files repo_info)
     \<and> (\<exists>h. heuristic_structure_analysis set_order all_files repo_info = Inr h
              \<and> complete_shape h \<and> full_shape h \<and> fallback_marked h)"
proof -
  have unfold: "ai_analyze_repo_structure model set_order ai all_files repo_info
                  = ai_analyze_try model set_order ai all_files repo_info"
    using assms by (simp add: ai_analyze_repo_structure_def)
  have a: "ai_analyze_repo_structure model set_order ai all_files repo_info = Inr v
           \<and> (\<exists>al. v = JObject al)"
    if "fst (call_ai_model model ai) = Inr (Some ai_response)"
      and "json_span CHR ''{'' CHR ''}'' ai_response = Some json_str"
      and "json_loads json_str = Some v"
    for ai_response json_str v
    using that ai_analyze_try_parsed [OF that] span_loads_object [OF that(2,3)] unfold
    by simp
  have b: "\<not> (\<exists>ai_response json_str v.
              fst (call_ai_model model ai) = Inr (Some ai_response)
              \<and> json_span CHR ''{'' CHR ''}'' ai_response = Some json_str
              \<and> json_loads json_str = Some v) \<longrightarrow>
         ai_analyze_repo_structure model set_order ai all_files repo_info
           = heuristic_structure_analysis set_order all_files repo_info"
    using ai_analyze_try_fallback [of model ai set_order all_files repo_info] unfold
    by simp
  from prompt_topics_object [OF assms] obtain al where "repo_info = JObject al" ..
  then have c: "\<exists>h. heuristic_structure_analysis set_order all_files repo_info = Inr h
              \<and> complete_shape h \<and> full_shape h \<and> fallback_marked h"
    using heuristic_complete [of set_order all_files al] by simp
  from a b c show ?thesis by blast
qed

theorem structure_analysis_result_witness:
  "ai_analyze_repo_structure ''gpt-4'' id (\<lambda>_. Choices [Some ''{\"insights\": {}}''])
     [''src/app.py''] (JObj [])
     = Inr (JObj [(''insights'', JObj [])])
   \<and> (\<exists>h. heuristic_structure_analysis id [''src/app.py''] (JObj []) = Inr h
           \<and> complete_shape h \<and> full_shape h \<and> fallback_marked h)"
proof -
  have p: "prompt_topics ''None'' (JObj []) = Inr (ustr ''None'')"
    by (simp add: prompt_topics_def dict_get_def JObj_def)
  have a: "fst (call_ai_model ''gpt-4'' (\<lambda>_. Choices [Some ''{\"insights\": {}}'']))
           = Inr (Some ''{\"insights\": {}}'')"
    by code_simp
  have b: "json_span CHR ''{'' CHR ''}'' ''{\"insights\": {}}'' = Some ''{\"insights\": {}}''"
    by code_simp
  have c: "json_loads ''{\"insights\": {}}'' = Some (JObj [(''insights'', JObj [])])"
    by code_simp
  from structure_analysis_result [OF p, of "''gpt-4''"
      "\<lambda>_. Choices [Some ''{\"insights\": {}}'']" id "[''src/app.py'']"] a b c
  show ?thesis by blast
qed

text \<open>
  When the model answers \<^verbatim>\<open>{}\<close> the analysis is the empty object: none of the nine
  fields is present and it is not the fallback.
\<close>

theorem structure_analysis_counterexample:
  "ai_analyze_repo_structure ''gpt-4'' id (\<lambda>_. Choices [Some ''{}''])
     [''src/app.py''] (JObj []) = Inr (JObject [])
   \<and> \<not> full_shape (JObject [])
   \<and> \<not> fallback_marked (JObject [])"
  by code_simp

subsection \<open>Result extraction\<close>

lemma str_find_append:
  "ch \<notin> set before \<Longrightarrow> str_find (before @ ch # rest) ch = int (length before)"
  by (induction before) (auto simp: Let_def)

lemma str_rfind_append:
  "ch \<notin> set after \<Longrightarrow> str_rfind (front @ ch # after) ch = int (length front)"
  using str_find_append [of ch "rev after" "rev front"]
  by (simp add: str_rfind_def Let_def)

lemma json_span_embedded:
  assumes "opener \<notin> set before" and "closer \<notin> set after"
  shows "json_span opener closer (before @ (opener # middle @ [closer]) @ after)
           = Some (opener # middle @ [closer])"
proof -
  let ?txt = "before @ (opener # middle @ [closer]) @ after"
  have f: "str_find ?txt opener = int (length before)"
    using str_find_append [OF assms(1), of "middle @ [closer] @ after"] by simp
  have "?txt = (before @ opener # middle) @ closer # after"
    by simp
  then have r: "str_rfind ?txt closer = int (length before) + 1 + int (length middle)"
    using str_rfind_append [OF assms(2), of "before @ opener # middle"] by simp
  have "slice ?txt (int (length before)) (int (length before) + 1 + int (length middle) + 1)
          = opener # middle @ [closer]"
    by (simp add: slice_def slice_index_def min_def nat_add_distrib)
  with f r show ?thesis
    by (simp add: json_span_def Let_def)
qed

text \<open>
  Claim C4, as the code has it. For every response text made of a prose prefix without
  the opening delimiter, an embedded JSON text that begins with the opening delimiter,
  ends with the closing delimiter and parses to a value, and a prose suffix without the
  closing delimiter, the extraction (slice from the first opening delimiter to the last
  closing delimiter, then strict parse) returns that value.
\<close>

theorem extract_json_roundtrip:
  assumes "opener \<notin> set before" and "closer \<notin> set after"
    and "json_loads (opener # middle @ [closer]) = Some v"
  shows "extract_json opener closer (before @ (opener # middle @ [closer]) @ after) = Inr v"
  using json_span_embedded [OF assms(1,2), of middle] assms(3)
  by (simp add: extract_json_def)

theorem extract_json_roundtrip_witness:
  "extract_json CHR ''['' CHR '']'' ''Sure! [\"package.json\"] Done.''
     = Inr (JArray [JStr ''package.json''])"
proof -
  have a: "CHR ''['' \<notin> set ''Sure! ''" by simp
  have b: "CHR '']'' \<notin> set '' Done.''" by simp
  have c: "json_loads (CHR ''['' # ''\"package.json\"'' @ [CHR '']''])
             = Some (JArray [JStr ''package.json''])"
    by code_simp
  from extract_json_roundtrip [OF a b c] show ?thesis by simp
qed

text \<open>
  The text \<^verbatim>\<open>Files [by rank]: ["a.py"]\<close> contains exactly one well-formed JSON array,
  but the slice starts at the bracket of the prose and the parse fails.
\<close>

theorem extract_json_counterexample:
  "embedded_json CHR ''['' CHR '']'' ''Files [by rank]: [\"a.py\"]'' = [''[\"a.py\"]'']
   \<and> json_loads ''[\"a.py\"]'' = Some (JArray [JStr ''a.py''])
   \<and> extract_json CHR ''['' CHR '']'' ''Files [by rank]: [\"a.py\"]'' = Inl NotJson"
  by code_simp

subsection \<open>Hosting API rate limit\<close>

text \<open>
  On a rate-limited response the file-tree fetch raises the rate-limit error at once,
  at whatever attempt; the metadata fetch also stops at once, and raises the rate-limit
  error when the reset header is absent or empty.
\<close>

lemma file_tree_rate_limit_aborts:
  assumes "api attempt = Response r" and "is_rate_limited r"
  shows "file_tree_attempts api attempt (Suc remaining)
           = (Inl (GitHubAPIError ''GitHub API rate limit exceeded''), [Call attempt])"
  using assms by (simp add: file_tree_try_def)

lemma repo_info_rate_limit_aborts:
  assumes "api attempt = Response r" and "is_rate_limited r"
  shows "snd (repo_info_attempts fromtimestamp api attempt (Suc remaining)) = [Call attempt]
         \<and> (reset_header r = None \<or> reset_header r = Some [] \<longrightarrow>
              fst (repo_info_attempts fromtimestamp api attempt (Suc remaining))
                = Inl (GitHubAPIError ''GitHub API rate limit exceeded''))"
  using assms by (auto simp: repo_info_try_def rate_limit_raise_def)

text \<open>
  Claim C7. A 403 response with a rate-limit signal ends the retry loop at once in both
  fetches and the file-tree fetch raises the rate-limit error. The metadata fetch first
  converts the \<^verbatim>\<open>X-RateLimit-Reset\<close> header for a log line: with the header \<^verbatim>\<open>abc\<close>
  that conversion raises \<^verbatim>\<open>ValueError\<close>, which leaves the function in place of the
  rate-limit error.
\<close>

theorem repo_info_rate_limit_bad_header:
  "fetch_repo_info (\<lambda>_. None) (\<lambda>_. rate_limit_response (Some ''abc''))
     = (Inl ValueError, [Call 0])
   \<and> fetch_complete_file_tree (\<lambda>_. rate_limit_response (Some ''abc''))
     = (Inl (GitHubAPIError ''GitHub API rate limit exceeded''), [Call 0])"
  by code_simp

end
